theory Spec2Isabelle
  imports Complex_Main "HOL-Library.Word"
begin

section \<open>Python values\<close>

text \<open>
  A Python \<open>str\<close> is a sequence of Unicode code points, \<open>bytes\<close> a sequence of octets.
  \<open>lit\<close> turns an ASCII literal into its code points.
\<close>

type_synonym str = "nat list"
type_synonym bytes = "8 word list"

definition lit :: "string \<Rightarrow> str" where
  "lit cs = map of_char cs"

text \<open>
  The values \<open>json.loads\<close> returns: \<open>None\<close>, \<open>bool\<close>, \<open>int\<close>, \<open>float\<close> (its 64 bits),
  \<open>str\<close>, \<open>list\<close> and \<open>dict\<close>. A dict is kept as its items in insertion order, with
  distinct keys; lookup is \<open>map_of\<close>.
\<close>

datatype json =
    JNull
  | JBool bool
  | JInt int
  | JFloat "64 word"
  | JStr str
  | JArr "json list"
  | JObj "(str \<times> json) list"

text \<open>
  Exceptions, all of them subclasses of \<open>Exception\<close> (what \<open>except Exception\<close> catches).
  \<open>ServiceError\<close> stands for whatever the generation client raises (network, quota,
  authentication), \<open>UnidentifiedImageError\<close> for an image the document library cannot read.
\<close>

datatype py_exception =
    KeyError str
  | TypeError
  | IndexError
  | AttributeError
  | JSONDecodeError
  | ServiceError str
  | UnidentifiedImageError
  | OSError

text \<open>\<open>v[k]\<close> for a string key \<open>k\<close>: only a dict can be subscripted by a string.\<close>

fun getitem :: "json \<Rightarrow> str \<Rightarrow> py_exception + json" where
  "getitem (JObj kvs) k = (case map_of kvs k of None \<Rightarrow> Inl (KeyError k) | Some v \<Rightarrow> Inr v)"
| "getitem JNull k = Inl TypeError"
| "getitem (JBool b) k = Inl TypeError"
| "getitem (JInt i) k = Inl TypeError"
| "getitem (JFloat x) k = Inl TypeError"
| "getitem (JStr s) k = Inl TypeError"
| "getitem (JArr xs) k = Inl TypeError"

text \<open>
  What a \<open>for\<close> loop (or \<open>enumerate\<close>) iterates over: the elements of a list, the keys
  of a dict, the characters of a string; anything else is not iterable.
\<close>

fun py_iter :: "json \<Rightarrow> py_exception + json list" where
  "py_iter (JArr xs) = Inr xs"
| "py_iter (JObj kvs) = Inr (map (\<lambda>kv. JStr (fst kv)) kvs)"
| "py_iter (JStr s) = Inr (map (\<lambda>c. JStr [c]) s)"
| "py_iter JNull = Inl TypeError"
| "py_iter (JBool b) = Inl TypeError"
| "py_iter (JInt i) = Inl TypeError"
| "py_iter (JFloat x) = Inl TypeError"

text \<open>Truth value of \<open>if v:\<close>. A float is false when it is \<open>+0.0\<close> or \<open>-0.0\<close>.\<close>

fun truthy :: "json \<Rightarrow> bool" where
  "truthy JNull = False"
| "truthy (JBool b) = b"
| "truthy (JInt i) = (i \<noteq> 0)"
| "truthy (JFloat x) = (x \<noteq> 0 \<and> x \<noteq> 0x8000000000000000)"
| "truthy (JStr s) = (s \<noteq> [])"
| "truthy (JArr xs) = (xs \<noteq> [])"
| "truthy (JObj kvs) = (kvs \<noteq> [])"

text \<open>
  Assigning \<open>paragraph.text = v\<close>, or adding \<open>v\<close> to a \<open>str\<close>, raises \<open>TypeError\<close> on
  anything but a \<open>str\<close>.
\<close>

fun expect_str :: "json \<Rightarrow> py_exception + str" where
  "expect_str (JStr s) = Inr s"
| "expect_str JNull = Inl TypeError"
| "expect_str (JBool b) = Inl TypeError"
| "expect_str (JInt i) = Inl TypeError"
| "expect_str (JFloat x) = Inl TypeError"
| "expect_str (JArr xs) = Inl TypeError"
| "expect_str (JObj kvs) = Inl TypeError"

text \<open>
  Assigning \<open>shape.text = v\<close> starts with \<open>v.split\<close>, an attribute only a \<open>str\<close> has
  among these values.
\<close>

fun text_arg :: "json \<Rightarrow> py_exception + str" where
  "text_arg (JStr s) = Inr s"
| "text_arg JNull = Inl AttributeError"
| "text_arg (JBool b) = Inl AttributeError"
| "text_arg (JInt i) = Inl AttributeError"
| "text_arg (JFloat x) = Inl AttributeError"
| "text_arg (JArr xs) = Inl AttributeError"
| "text_arg (JObj kvs) = Inl AttributeError"

subsection \<open>\<open>str.strip\<close>\<close>

text \<open>
  \<open>s.strip(chars)\<close> removes from both ends every character that occurs in \<open>chars\<close>;
  \<open>s.strip()\<close> removes the characters for which \<open>str.isspace\<close> holds.
\<close>

definition strip_by :: "(nat \<Rightarrow> bool) \<Rightarrow> str \<Rightarrow> str" where
  "strip_by P s = rev (dropWhile P (rev (dropWhile P s)))"

definition strip_chars :: "str \<Rightarrow> str \<Rightarrow> str" where
  "strip_chars chars s = strip_by (\<lambda>c. List.member chars c) s"

definition py_isspace :: "nat \<Rightarrow> bool" where
  "py_isspace c \<longleftrightarrow>
     (9 \<le> c \<and> c \<le> 13) \<or> (28 \<le> c \<and> c \<le> 32) \<or> c = 133 \<or> c = 160 \<or> c = 5760 \<or>
     (8192 \<le> c \<and> c \<le> 8202) \<or> c = 8232 \<or> c = 8233 \<or> c = 8239 \<or> c = 8287 \<or> c = 12288"

definition strip :: "str \<Rightarrow> str" where
  "strip s = strip_by py_isspace s"

text \<open>The decimal rendering of an \<open>int\<close> in an f-string.\<close>

fun str_nat :: "nat \<Rightarrow> str" where
  "str_nat n = (if n < 10 then [48 + n] else str_nat (n div 10) @ [48 + n mod 10])"

definition str_int :: "int \<Rightarrow> str" where
  "str_int i = (if i < 0 then 45 # str_nat (nat (- i)) else str_nat (nat i))"

section \<open>The generation service\<close>

text \<open>
  The response objects of the client, with the optional fields the code reads:
  \<open>response.candidates[0].content.parts\<close>, \<open>part.text\<close>, \<open>part.inline_data.data\<close>.
\<close>

record blob =
  mime_type :: "str option"
  data :: "bytes option"

record part =
  part_text :: "str option"
  inline_data :: "blob option"

record content =
  parts :: "part list option"

record candidate =
  content :: "content option"

record response =
  candidates :: "candidate list option"

record request =
  model :: str
  contents :: json
  response_modalities :: "str list option"

definition TEXT_MODEL_NAME :: str where
  "TEXT_MODEL_NAME = lit ''gemini-2.5-pro''"

definition IMAGE_MODEL_NAME :: str where
  "IMAGE_MODEL_NAME = lit ''gemini-2.0-flash-preview-image-generation''"

section \<open>The presentation document\<close>

text \<open>
  The document as the code builds it through the presentation library: slides, each a
  list of shapes in drawing order. Lengths are in EMU (914400 to the inch, 12700 to the
  point). A picture records what the code passes: the image and its left, top and width
  (the library derives the height from the image).
\<close>

datatype rgb = RGBColor nat nat nat

datatype pp_align = ALIGN_LEFT | ALIGN_CENTER | ALIGN_RIGHT

datatype mso_anchor = ANCHOR_TOP | ANCHOR_MIDDLE | ANCHOR_BOTTOM

datatype fill = Inherited | Solid "rgb option" | Background

datatype ph_type = PH_CENTER_TITLE | PH_SUBTITLE | PH_TITLE | PH_OBJECT

record para =
  p_text :: str
  font_color :: "rgb option"
  font_size :: "int option"
  alignment :: "pp_align option"
  space_after :: "int option"

record text_frame =
  paragraphs :: "para list"
  word_wrap :: "bool option"
  vertical_anchor :: "mso_anchor option"

datatype shape =
    Placeholder nat ph_type text_frame fill
  | Rectangle int int int int fill fill
  | TextBox int int int int text_frame
  | Picture bytes int int int

type_synonym slide = "shape list"

record presentation =
  slide_width :: int
  slide_height :: int
  slides :: "slide list"

definition Inches :: "rat \<Rightarrow> int" where
  "Inches x = (if 0 \<le> x then \<lfloor>x * 914400\<rfloor> else \<lceil>x * 914400\<rceil>)"

text \<open>\<open>Pt\<close> is only applied to whole numbers of points.\<close>

definition Pt :: "int \<Rightarrow> int" where
  "Pt x = x * 12700"

text \<open>\<open>Presentation()\<close>: the library's default template, 10 by 7.5 inches, no slides.\<close>

definition Presentation :: presentation where
  "Presentation = \<lparr>slide_width = 9144000, slide_height = 6858000, slides = []\<rparr>"

definition new_paragraph :: para where
  "new_paragraph =
     \<lparr>p_text = [], font_color = None, font_size = None, alignment = None, space_after = None\<rparr>"

text \<open>
  A text frame always holds at least one paragraph: a new text box starts with one empty
  paragraph (the code reads \<open>paragraphs[0]\<close> of a text box it has just added), and
  \<open>add_paragraph\<close> appends another one.
\<close>

definition new_textbox_frame :: text_frame where
  "new_textbox_frame =
     \<lparr>paragraphs = [new_paragraph], word_wrap = Some False, vertical_anchor = None\<rparr>"

text \<open>Assigning \<open>shape.text\<close> replaces the paragraphs by one per line of the text.\<close>

fun split_on :: "nat \<Rightarrow> str \<Rightarrow> str list" where
  "split_on d [] = [[]]"
| "split_on d (c # cs) =
     (if c = d then [] # split_on d cs
      else (case split_on d cs of [] \<Rightarrow> [[c]] | x # xs \<Rightarrow> (c # x) # xs))"

definition set_text :: "str \<Rightarrow> text_frame \<Rightarrow> text_frame" where
  "set_text s fr = fr\<lparr>paragraphs := map (\<lambda>l. new_paragraph\<lparr>p_text := l\<rparr>) (split_on 10 s)\<rparr>"

definition placeholder_frame :: text_frame where
  "placeholder_frame = \<lparr>paragraphs = [new_paragraph], word_wrap = None, vertical_anchor = None\<rparr>"

fun is_picture :: "shape \<Rightarrow> bool" where
  "is_picture (Picture b l t w) = True"
| "is_picture (Placeholder i ty fr f) = False"
| "is_picture (Rectangle l t w h f lf) = False"
| "is_picture (TextBox l t w h fr) = False"

definition pictures :: "slide \<Rightarrow> shape list" where
  "pictures s = filter is_picture s"

fun text_boxes :: "slide \<Rightarrow> text_frame list" where
  "text_boxes [] = []"
| "text_boxes (TextBox l t w h fr # sh) = fr # text_boxes sh"
| "text_boxes (Placeholder i ty fr f # sh) = text_boxes sh"
| "text_boxes (Rectangle l t w h f lf # sh) = text_boxes sh"
| "text_boxes (Picture b l t w # sh) = text_boxes sh"

section \<open>The world outside the program\<close>

text \<open>
  \<open>files\<close> are the presentation files on disk; \<open>requests\<close> is the log of the calls made
  to the generation service, oldest first.
\<close>

type_synonym image_map = "nat \<rightharpoonup> bytes option"

record world =
  files :: "str \<rightharpoonup> presentation"
  requests :: "request list"

text \<open>
  What the program does not decide itself:
  \<^item> \<open>client\<close>: the answer of \<open>client.models.generate_content\<close> to a request, which may
    depend on the requests made before (the same prompt need not give the same answer);
  \<^item> \<open>json_loads\<close>: \<open>json.loads\<close>;
  \<^item> \<open>image_error\<close>: the exception \<open>add_picture\<close> raises on image data it cannot read;
  \<^item> \<open>prs_save\<close>: the failure of \<open>prs.save\<close>, if any: the exception and the files it
    leaves behind.
\<close>

record env =
  client :: "request list \<Rightarrow> request \<Rightarrow> py_exception + response"
  json_loads :: "str \<Rightarrow> py_exception + json"
  image_error :: "bytes \<Rightarrow> py_exception option"
  prs_save :: "(str \<rightharpoonup> presentation) \<Rightarrow> str \<Rightarrow> (py_exception \<times> (str \<rightharpoonup> presentation)) option"

definition generate_content :: "env \<Rightarrow> request \<Rightarrow> world \<Rightarrow> (py_exception + response) \<times> world" where
  "generate_content E req w = (client E (requests w) req, w\<lparr>requests := requests w @ [req]\<rparr>)"

section \<open>The program\<close>

text \<open>
  Each function takes the world and returns it with its result. What a function raises is
  the \<open>Inl\<close> of its result. The calls of \<open>print\<close> only write to the console and are left
  out, but not the subscripts they evaluate (line 64).
\<close>

subsection \<open>\<open>generate_presentation_slide_text\<close>\<close>

definition outline_prompt :: "str \<Rightarrow> int \<Rightarrow> str" where
  "outline_prompt topic num_slides =
     [10] @ lit ''    Create a detailed, structured presentation outline in JSON format for the topic: ''
       @ [34] @ topic @ [34] @ lit ''.'' @
     [10] @ lit ''    The JSON object should have a '' @ [34] @ lit ''title'' @ [34]
       @ lit '' field for the main presentation title, and a '' @ [34] @ lit ''slides'' @ [34]
       @ lit '' array.'' @
     [10] @ lit ''    Create exactly '' @ str_int num_slides @ lit '' slides.'' @
     [10] @ lit ''    Each object in the '' @ [34] @ lit ''slides'' @ [34]
       @ lit '' array must contain three fields:'' @
     [10] @ lit ''    1. '' @ [34] @ lit ''slide_title'' @ [34]
       @ lit '': A concise title for the slide.'' @
     [10] @ lit ''    2. '' @ [34] @ lit ''key_points'' @ [34]
       @ lit '': An array of 3-5 bullet points summarizing the content.'' @
     [10] @ lit ''    3. '' @ [34] @ lit ''image_prompt'' @ [34]
       @ lit '': A descriptive, single-sentence prompt to generate a relevant image for this slide.'' @
     [10] @ lit ''    ''"

definition outline_request :: "str \<Rightarrow> int \<Rightarrow> request" where
  "outline_request topic num_slides =
     \<lparr>model = TEXT_MODEL_NAME, contents = JStr (outline_prompt topic num_slides),
      response_modalities = None\<rparr>"

text \<open>\<open>response.candidates[0].content.parts\<close>, with what each missing piece raises.\<close>

definition first_candidate_parts :: "response \<Rightarrow> py_exception + part list" where
  "first_candidate_parts r =
     (case candidates r of
        None \<Rightarrow> Inl TypeError
      | Some [] \<Rightarrow> Inl IndexError
      | Some (c # cs) \<Rightarrow>
          (case content c of
             None \<Rightarrow> Inl AttributeError
           | Some ct \<Rightarrow> (case parts ct of None \<Rightarrow> Inl TypeError | Some ps \<Rightarrow> Inr ps)))"

text \<open>\<open><parts>[0].text\<close>, about to be stripped.\<close>

definition first_part_text :: "response \<Rightarrow> py_exception + str" where
  "first_part_text r =
     (case first_candidate_parts r of
        Inl e \<Rightarrow> Inl e
      | Inr [] \<Rightarrow> Inl IndexError
      | Inr (p # ps) \<Rightarrow> (case part_text p of None \<Rightarrow> Inl AttributeError | Some t \<Rightarrow> Inr t))"

text \<open>Line 51: \<open>text.strip('`').strip('json').strip()\<close>.\<close>

definition json_text :: "str \<Rightarrow> str" where
  "json_text t = strip (strip_chars (lit ''json'') (strip_chars (lit ''`'') t))"

text \<open>The body of the \<open>try\<close> of lines 44 to 52, once the service has answered.\<close>

definition parse_outline :: "env \<Rightarrow> py_exception + response \<Rightarrow> py_exception + json" where
  "parse_outline E answer =
     (case answer of
        Inl e \<Rightarrow> Inl e
      | Inr outline_response \<Rightarrow>
          (case first_part_text outline_response of
             Inl e \<Rightarrow> Inl e
           | Inr t \<Rightarrow> json_loads E (json_text t)))"

text \<open>The function returns \<open>None\<close> (that is \<open>JNull\<close>) from its \<open>except\<close> branch.\<close>

definition generate_presentation_slide_text :: "env \<Rightarrow> str \<Rightarrow> int \<Rightarrow> world \<Rightarrow> json \<times> world" where
  "generate_presentation_slide_text E topic num_slides w =
     (case generate_content E (outline_request topic num_slides) w of
        (answer, w') \<Rightarrow>
          (case parse_outline E answer of Inl e \<Rightarrow> (JNull, w') | Inr outline \<Rightarrow> (outline, w')))"

subsection \<open>\<open>generate_presentation_slide_images\<close>\<close>

definition image_request :: "json \<Rightarrow> request" where
  "image_request image_prompt =
     \<lparr>model = IMAGE_MODEL_NAME, contents = image_prompt,
      response_modalities = Some [lit ''TEXT'', lit ''IMAGE'']\<rparr>"

text \<open>
  Lines 74 to 79, the \<open>for ... else\<close> over the parts: the data of the first part whose
  \<open>inline_data\<close> is not \<open>None\<close>, or \<open>None\<close> when the loop ends without a \<open>break\<close>.
\<close>

fun scan_parts :: "part list \<Rightarrow> bytes option" where
  "scan_parts [] = None"
| "scan_parts (p # ps) = (case inline_data p of Some b \<Rightarrow> data b | None \<Rightarrow> scan_parts ps)"

text \<open>The body of the \<open>try\<close> of lines 65 to 79: what it would store, or what it raises.\<close>

definition try_image :: "env \<Rightarrow> json \<Rightarrow> world \<Rightarrow> (py_exception + bytes option) \<times> world" where
  "try_image E image_prompt w =
     (case generate_content E (image_request image_prompt) w of
        (answer, w') \<Rightarrow>
          (case answer of
             Inl e \<Rightarrow> (Inl e, w')
           | Inr response \<Rightarrow>
               (case first_candidate_parts response of
                  Inl e \<Rightarrow> (Inl e, w')
                | Inr ps \<Rightarrow> (Inr (scan_parts ps), w'))))"

text \<open>The \<open>except Exception\<close> of lines 80 to 82 stores \<open>None\<close>.\<close>

fun absorb :: "py_exception + bytes option \<Rightarrow> bytes option" where
  "absorb (Inl e) = None"
| "absorb (Inr d) = d"

text \<open>
  The loop of lines 62 to 82 from index \<open>i\<close> on. The two subscripts of lines 63 and 64
  stand before the \<open>try\<close>: what they raise leaves the function.
\<close>

fun images_loop ::
  "env \<Rightarrow> nat \<Rightarrow> json list \<Rightarrow> image_map \<Rightarrow> world \<Rightarrow> (py_exception + image_map) \<times> world" where
  "images_loop E i [] images w = (Inr images, w)"
| "images_loop E i (slide # rest) images w =
     (case getitem slide (lit ''image_prompt'') of
        Inl e \<Rightarrow> (Inl e, w)
      | Inr image_prompt \<Rightarrow>
          (case getitem slide (lit ''slide_title'') of
             Inl e \<Rightarrow> (Inl e, w)
           | Inr slide_title \<Rightarrow>
               (case try_image E image_prompt w of
                  (r, w') \<Rightarrow> images_loop E (Suc i) rest (images(i \<mapsto> absorb r)) w')))"

definition generate_presentation_slide_images ::
  "env \<Rightarrow> json \<Rightarrow> world \<Rightarrow> (py_exception + image_map) \<times> world" where
  "generate_presentation_slide_images E outline w =
     (case getitem outline (lit ''slides'') of
        Inl e \<Rightarrow> (Inl e, w)
      | Inr ss \<Rightarrow>
          (case py_iter ss of
             Inl e \<Rightarrow> (Inl e, w)
           | Inr sl \<Rightarrow> images_loop E 0 sl Map.empty w))"

subsection \<open>\<open>create_presentation_file\<close>\<close>

text \<open>The string literal of line 139, code point by code point, and the bullet U+2022.\<close>

definition bullet_prefix :: str where
  "bullet_prefix = [226, 8364, 162, 32]"

definition bullet_glyph :: str where
  "bullet_glyph = [8226]"

text \<open>
  The objects the function works on: the two arguments, which are references to objects
  of the caller, and the document \<open>prs\<close> it creates. A statement of the function is a
  step from one such state to the next that returns a value or raises; \<open>and_then\<close> runs
  one step after another and stops at the first that raises. The steps that touch the state
  are the three reads and \<open>update_prs\<close>.
\<close>

record frame =
  f_outline :: json
  f_images :: image_map
  f_prs :: presentation

type_synonym 'a prog = "frame \<Rightarrow> (py_exception + 'a) \<times> frame"

definition ret :: "'a \<Rightarrow> 'a prog" where
  "ret x st = (Inr x, st)"

definition lift :: "py_exception + 'a \<Rightarrow> 'a prog" where
  "lift r st = (r, st)"

definition and_then :: "'a prog \<Rightarrow> ('a \<Rightarrow> 'b prog) \<Rightarrow> 'b prog" where
  "and_then m f st = (case m st of (Inl e, st') \<Rightarrow> (Inl e, st') | (Inr x, st') \<Rightarrow> f x st')"

definition read_outline :: "json prog" where
  "read_outline st = (Inr (f_outline st), st)"

definition read_images :: "image_map prog" where
  "read_images st = (Inr (f_images st), st)"

definition read_prs :: "presentation prog" where
  "read_prs st = (Inr (f_prs st), st)"

definition update_prs :: "(presentation \<Rightarrow> presentation) \<Rightarrow> unit prog" where
  "update_prs g st = (Inr (), st\<lparr>f_prs := g (f_prs st)\<rparr>)"

text \<open>
  \<open>prs.slides.add_slide\<close> appends a slide; the variable \<open>slide\<close> then refers to the last
  slide of the document, to which \<open>add_shape\<close> appends a shape and which \<open>set_slide\<close>
  rewrites.
\<close>

definition add_slide :: "slide \<Rightarrow> presentation \<Rightarrow> presentation" where
  "add_slide s p = p\<lparr>slides := slides p @ [s]\<rparr>"

definition add_shape :: "shape \<Rightarrow> presentation \<Rightarrow> presentation" where
  "add_shape sh p = p\<lparr>slides := butlast (slides p) @ [last (slides p) @ [sh]]\<rparr>"

definition set_slide :: "slide \<Rightarrow> presentation \<Rightarrow> presentation" where
  "set_slide s p = p\<lparr>slides := butlast (slides p) @ [s]\<rparr>"

text \<open>
  Layout 0 of the default template gives a new slide a title placeholder (index 0) and a
  subtitle placeholder (index 1). \<open>title_slide\<close> is that slide after lines 94 to 104.
\<close>

definition title_slide_layout :: slide where
  "title_slide_layout =
     [Placeholder 0 PH_CENTER_TITLE placeholder_frame Inherited,
      Placeholder 1 PH_SUBTITLE placeholder_frame Inherited]"

definition title_slide :: "str \<Rightarrow> slide" where
  "title_slide t =
     (let title_frame = set_text t placeholder_frame;
          title_p = (hd (paragraphs title_frame))\<lparr>font_color := Some (RGBColor 255 255 255)\<rparr>;
          title_frame = title_frame\<lparr>paragraphs := title_p # tl (paragraphs title_frame)\<rparr>;
          subtitle = set_text (lit ''AI-Generated Presentation: '' @ t) placeholder_frame
      in [Placeholder 0 PH_CENTER_TITLE title_frame (Solid (Some (RGBColor 0 51 102))),
          Placeholder 1 PH_SUBTITLE subtitle Inherited])"

text \<open>Lines 91 to 104.\<close>

definition add_title_slide :: "unit prog" where
  "add_title_slide =
     and_then (update_prs (add_slide title_slide_layout)) (\<lambda>u.
     and_then read_outline (\<lambda>outline.
     and_then (lift (getitem outline (lit ''title''))) (\<lambda>t.
     and_then (lift (text_arg t)) (\<lambda>title.
     update_prs (set_slide (title_slide title))))))"

text \<open>Lines 117 to 120: the header band, as wide as the slide and one inch high.\<close>

definition header_band :: "int \<Rightarrow> shape" where
  "header_band width =
     Rectangle (Inches 0) (Inches 0) width (Inches 1) (Solid (Some (RGBColor 0 51 102))) Background"

text \<open>Lines 123 to 130: the title goes into the first paragraph of a new text box.\<close>

definition title_textbox :: "int \<Rightarrow> str \<Rightarrow> shape" where
  "title_textbox width slide_title =
     (let title_frame = new_textbox_frame;
          title_p = (hd (paragraphs title_frame))
                      \<lparr>p_text := slide_title, font_color := Some (RGBColor 255 255 255),
                       font_size := Some (Pt 24), alignment := Some ALIGN_CENTER\<rparr>
      in TextBox (Inches 0) (Inches 0) width (Inches 1)
           (title_frame\<lparr>paragraphs := title_p # tl (paragraphs title_frame),
                        vertical_anchor := Some ANCHOR_MIDDLE\<rparr>))"

text \<open>
  Lines 137 to 142: \<open>add_paragraph\<close> appends one more paragraph for each key point, after
  the paragraphs the frame already has.
\<close>

definition key_point_paragraph :: "str \<Rightarrow> para" where
  "key_point_paragraph point =
     \<lparr>p_text = bullet_prefix @ point, font_color = Some (RGBColor 0 30 60),
      font_size = Some (Pt 16), alignment = None, space_after = Some (Pt 10)\<rparr>"

fun add_key_points :: "json list \<Rightarrow> para list \<Rightarrow> py_exception + para list" where
  "add_key_points [] ps = Inr ps"
| "add_key_points (point # rest) ps =
     (case expect_str point of
        Inl e \<Rightarrow> Inl e
      | Inr s \<Rightarrow> add_key_points rest (ps @ [key_point_paragraph s]))"

text \<open>Lines 133 to 135: the text box of the bullet points, holding the paragraphs \<open>ps\<close>.\<close>

definition body_textbox :: "para list \<Rightarrow> shape" where
  "body_textbox ps =
     TextBox (Inches 0.5) (Inches 1.5) (Inches 4.5) (Inches 5.0)
       (new_textbox_frame\<lparr>word_wrap := Some True, paragraphs := ps\<rparr>)"

text \<open>Line 147.\<close>

definition add_picture :: "bytes \<Rightarrow> shape" where
  "add_picture img = Picture img (Inches 5.5) (Inches 2.0) (Inches 4.0)"

text \<open>
  Lines 109 to 147 for one slide. The placeholders the layout gives the new slide are all
  removed (lines 112 to 114), so the slide starts without shapes. A shape joins the slide
  once the code has set it up.
\<close>

definition content_slide :: "env \<Rightarrow> nat \<Rightarrow> json \<Rightarrow> unit prog" where
  "content_slide E i slide_data =
     and_then (update_prs (add_slide [])) (\<lambda>u.
     and_then read_prs (\<lambda>prs.
     and_then (update_prs (add_shape (header_band (slide_width prs)))) (\<lambda>u.
     and_then (lift (getitem slide_data (lit ''slide_title''))) (\<lambda>st.
     and_then (lift (expect_str st)) (\<lambda>slide_title.
     and_then (update_prs (add_shape (title_textbox (slide_width prs) slide_title))) (\<lambda>u.
     and_then (lift (getitem slide_data (lit ''key_points''))) (\<lambda>kp.
     and_then (lift (py_iter kp)) (\<lambda>points.
     and_then (lift (add_key_points points (paragraphs new_textbox_frame))) (\<lambda>ps.
     and_then (update_prs (add_shape (body_textbox ps))) (\<lambda>u.
     and_then read_images (\<lambda>images.
       (case images i of
          Some (Some img) \<Rightarrow>
            and_then (lift (case image_error E img of Some e \<Rightarrow> Inl e | None \<Rightarrow> Inr ())) (\<lambda>u.
            update_prs (add_shape (add_picture img)))
        | Some None \<Rightarrow> ret ()
        | None \<Rightarrow> ret ()))))))))))))"

text \<open>The loop of lines 108 to 147 from index \<open>i\<close> on.\<close>

fun content_slides :: "env \<Rightarrow> nat \<Rightarrow> json list \<Rightarrow> unit prog" where
  "content_slides E i [] = ret ()"
| "content_slides E i (slide_data # rest) =
     and_then (content_slide E i slide_data) (\<lambda>u. content_slides E (Suc i) rest)"

text \<open>Lines 91 to 147: the document is built in memory.\<close>

definition build_presentation :: "env \<Rightarrow> unit prog" where
  "build_presentation E =
     and_then add_title_slide (\<lambda>u.
     and_then read_outline (\<lambda>outline.
     and_then (lift (getitem outline (lit ''slides''))) (\<lambda>ss.
     and_then (lift (py_iter ss)) (\<lambda>sl.
     content_slides E 0 sl))))"

text \<open>
  The whole function: it starts from its two arguments and the empty document of line 88,
  and saves the document when it is built (line 149). The result carries, after what the
  function returns or raises, the two argument objects as the steps have left them, and
  the world.
\<close>

definition create_presentation_file ::
  "env \<Rightarrow> json \<Rightarrow> image_map \<Rightarrow> str \<Rightarrow> world \<Rightarrow> (py_exception + unit) \<times> json \<times> image_map \<times> world" where
  "create_presentation_file E outline images output_filename w =
     (case build_presentation E \<lparr>f_outline = outline, f_images = images, f_prs = Presentation\<rparr> of
        (Inl e, st) \<Rightarrow> (Inl e, f_outline st, f_images st, w)
      | (Inr u, st) \<Rightarrow>
          (case prs_save E (files w) output_filename of
             Some (e, left_behind) \<Rightarrow> (Inl e, f_outline st, f_images st, w\<lparr>files := left_behind\<rparr>)
           | None \<Rightarrow>
               (Inr (), f_outline st, f_images st,
                w\<lparr>files := (files w)(output_filename \<mapsto> f_prs st)\<rparr>)))"

subsection \<open>The main block\<close>

definition default_output_filename :: str where
  "default_output_filename = lit ''AI_Presentation.pptx''"

definition main :: "env \<Rightarrow> world \<Rightarrow> (py_exception + unit) \<times> world" where
  "main E w =
     (let topic = lit ''The Future of Quantum Computing''; num_slides = 5
      in case generate_presentation_slide_text E topic num_slides w of
        (presentation_outline, w1) \<Rightarrow>
          if truthy presentation_outline then
            (case generate_presentation_slide_images E presentation_outline w1 of
               (Inl e, w2) \<Rightarrow> (Inl e, w2)
             | (Inr slide_images, w2) \<Rightarrow>
                 (case create_presentation_file E presentation_outline slide_images
                         default_output_filename w2 of
                    (r, outline', images', w3) \<Rightarrow> (r, w3)))
          else (Inr (), w1))"

section \<open>Notions used in the statements\<close>

text \<open>\<open>v\<close> is a dict that has the key \<open>k\<close>.\<close>

definition has_field :: "json \<Rightarrow> str \<Rightarrow> bool" where
  "has_field v k = (case getitem v k of Inl e \<Rightarrow> False | Inr x \<Rightarrow> True)"

text \<open>A slide object that carries the two fields the image loop reads.\<close>

definition slide_readable :: "json \<Rightarrow> bool" where
  "slide_readable s \<longleftrightarrow> has_field s (lit ''image_prompt'') \<and> has_field s (lit ''slide_title'')"

definition image_prompt_of :: "json \<Rightarrow> json" where
  "image_prompt_of s = (case getitem s (lit ''image_prompt'') of Inl e \<Rightarrow> JNull | Inr p \<Rightarrow> p)"

text \<open>
  The world when the loop over the slides \<open>sl\<close>, started in \<open>w\<close>, reaches index \<open>k\<close>:
  one image request has been logged for each earlier slide. \<open>attempt\<close> is what the
  \<open>try\<close> for slide \<open>k\<close> stores or raises there.
\<close>

definition world_at :: "world \<Rightarrow> json list \<Rightarrow> nat \<Rightarrow> world" where
  "world_at w sl k =
     w\<lparr>requests := requests w @ map (\<lambda>s. image_request (image_prompt_of s)) (take k sl)\<rparr>"

definition attempt :: "env \<Rightarrow> world \<Rightarrow> json list \<Rightarrow> nat \<Rightarrow> py_exception + bytes option" where
  "attempt E w sl k = fst (try_image E (image_prompt_of (sl ! k)) (world_at w sl k))"

text \<open>The answer of the service to the request made for slide \<open>k\<close>.\<close>

definition answer_at :: "env \<Rightarrow> world \<Rightarrow> json list \<Rightarrow> nat \<Rightarrow> py_exception + response" where
  "answer_at E w sl k =
     client E (requests (world_at w sl k)) (image_request (image_prompt_of (sl ! k)))"

text \<open>The answer of the service to the outline request.\<close>

definition outline_answer :: "env \<Rightarrow> world \<Rightarrow> str \<Rightarrow> int \<Rightarrow> py_exception + response" where
  "outline_answer E w topic num_slides = client E (requests w) (outline_request topic num_slides)"

definition no_inline_data :: "part \<Rightarrow> bool" where
  "no_inline_data p \<longleftrightarrow> inline_data p = None"

text \<open>
  A slide specification as the data model has it: an object whose \<open>slide_title\<close> is a
  string and whose \<open>key_points\<close> is a list of strings.
\<close>

definition is_str :: "json \<Rightarrow> bool" where
  "is_str v = (case expect_str v of Inl e \<Rightarrow> False | Inr s \<Rightarrow> True)"

definition is_str_list :: "json \<Rightarrow> bool" where
  "is_str_list v = (case v of JArr xs \<Rightarrow> list_all is_str xs | _ \<Rightarrow> False)"

definition slide_spec_ok :: "json \<Rightarrow> bool" where
  "slide_spec_ok s \<longleftrightarrow>
     (case getitem s (lit ''slide_title'') of Inl e \<Rightarrow> False | Inr t \<Rightarrow> is_str t) \<and>
     (case getitem s (lit ''key_points'') of Inl e \<Rightarrow> False | Inr kp \<Rightarrow> is_str_list kp)"

text \<open>A step that leaves the two argument objects as they are, whatever it does else.\<close>

definition keeps_inputs :: "'a prog \<Rightarrow> bool" where
  "keeps_inputs m \<longleftrightarrow>
     (\<forall>st. f_outline (snd (m st)) = f_outline st \<and> f_images (snd (m st)) = f_images st)"

text \<open>The image stored for slide \<open>i\<close>, if there is one and the library can read it.\<close>

definition readable_image :: "env \<Rightarrow> image_map \<Rightarrow> nat \<Rightarrow> bool" where
  "readable_image E images i =
     (case images i of
        Some (Some img) \<Rightarrow> (case image_error E img of None \<Rightarrow> True | Some e \<Rightarrow> False)
      | Some None \<Rightarrow> False
      | None \<Rightarrow> False)"

section \<open>Concrete inputs\<close>

text \<open>
  Inputs on which the statements below are evaluated: a service that answers the outline
  request with a fenced JSON text, fails every other image request (those made after an
  even number of earlier requests) and otherwise returns a caption followed by an image;
  a service that is down; a service that answers with the fenced text followed by a line
  break; a parser that knows one text; a library that reads one image,
  \<open>ex_png\<close>, a complete PNG file of one grey pixel (signature, header, data and end
  chunks).
\<close>

definition ex_png :: bytes where
  "ex_png =
     [0x89, 0x50, 0x4E, 0x47, 0x0D, 0x0A, 0x1A, 0x0A,
      0x00, 0x00, 0x00, 0x0D, 0x49, 0x48, 0x44, 0x52,
      0x00, 0x00, 0x00, 0x01, 0x00, 0x00, 0x00, 0x01, 0x08, 0x00, 0x00, 0x00, 0x00,
      0x3A, 0x7E, 0x9B, 0x55,
      0x00, 0x00, 0x00, 0x0A, 0x49, 0x44, 0x41, 0x54,
      0x78, 0xDA, 0x63, 0x60, 0x00, 0x00, 0x00, 0x02, 0x00, 0x01,
      0xE5, 0x27, 0xDE, 0xFC,
      0x00, 0x00, 0x00, 0x00, 0x49, 0x45, 0x4E, 0x44, 0xAE, 0x42, 0x60, 0x82]"

definition ex_text_response :: response where
  "ex_text_response =
     \<lparr>candidates = Some [\<lparr>content = Some \<lparr>parts = Some
        [\<lparr>part_text = Some (lit ''```json'' @ [10] @ lit ''{}'' @ [10] @ lit ''```''),
          inline_data = None\<rparr>]\<rparr>\<rparr>]\<rparr>"


definition ex_bare_response :: response where
  "ex_bare_response =
     \<lparr>candidates = Some [\<lparr>content = Some \<lparr>parts = Some
        [\<lparr>part_text = Some (lit ''{}''), inline_data = None\<rparr>]\<rparr>\<rparr>]\<rparr>"

definition ex_parts :: "part list" where
  "ex_parts =
     [\<lparr>part_text = Some (lit ''caption''), inline_data = None\<rparr>,
      \<lparr>part_text = None,
       inline_data = Some \<lparr>mime_type = Some (lit ''image/png''), data = Some ex_png\<rparr>\<rparr>,
      \<lparr>part_text = None,
       inline_data = Some \<lparr>mime_type = Some (lit ''image/png''), data = Some [0x00]\<rparr>\<rparr>]"

definition ex_image_response :: response where
  "ex_image_response = \<lparr>candidates = Some [\<lparr>content = Some \<lparr>parts = Some ex_parts\<rparr>\<rparr>]\<rparr>"

definition ex_client :: "request list \<Rightarrow> request \<Rightarrow> py_exception + response" where
  "ex_client hist req =
     (if model req = TEXT_MODEL_NAME then Inr ex_text_response
      else if even (length hist) then Inl (ServiceError (lit ''503''))
      else Inr ex_image_response)"

definition ex_down :: "request list \<Rightarrow> request \<Rightarrow> py_exception + response" where
  "ex_down hist req = Inl (ServiceError (lit ''503''))"


definition ex_loads :: "str \<Rightarrow> py_exception + json" where
  "ex_loads t = (if t = lit ''{}'' then Inr (JObj []) else Inl JSONDecodeError)"

definition ex_image_error :: "bytes \<Rightarrow> py_exception option" where
  "ex_image_error b = (if b = ex_png then None else Some UnidentifiedImageError)"

definition ex_save ::
  "(str \<rightharpoonup> presentation) \<Rightarrow> str \<Rightarrow> (py_exception \<times> (str \<rightharpoonup> presentation)) option" where
  "ex_save fs path = (if path = [] then Some (OSError, fs) else None)"

definition ex_env :: env where
  "ex_env = \<lparr>client = ex_client, json_loads = ex_loads, image_error = ex_image_error,
             prs_save = ex_save\<rparr>"

definition ex_env_down :: env where
  "ex_env_down = \<lparr>client = ex_down, json_loads = ex_loads, image_error = ex_image_error,
                  prs_save = ex_save\<rparr>"


definition ex_world :: world where
  "ex_world = \<lparr>files = Map.empty, requests = []\<rparr>"

definition ex_slide :: "str \<Rightarrow> json" where
  "ex_slide t =
     JObj [(lit ''slide_title'', JStr t),
           (lit ''key_points'', JArr [JStr (lit ''p1''), JStr (lit ''p2''), JStr (lit ''p3'')]),
           (lit ''image_prompt'', JStr (lit ''...''))]"

definition ex_untitled :: json where
  "ex_untitled = JObj [(lit ''image_prompt'', JStr (lit ''...''))]"

definition ex_outline :: "json list \<Rightarrow> json" where
  "ex_outline sl = JObj [(lit ''title'', JStr (lit ''X'')), (lit ''slides'', JArr sl)]"

definition ex_document :: presentation where
  "ex_document =
     \<lparr>slide_width = 9144000, slide_height = 6858000,
      slides = [title_slide (lit ''X''),
                [header_band 9144000, title_textbox 9144000 (lit ''A''),
                 body_textbox [new_paragraph, key_point_paragraph (lit ''p1''),
                               key_point_paragraph (lit ''p2''), key_point_paragraph (lit ''p3'')],
                 add_picture ex_png]]\<rparr>"

definition ex_one_image :: image_map where
  "ex_one_image = [0 \<mapsto> Some ex_png]"

definition ex_five :: "json list" where
  "ex_five = [ex_slide (lit ''A''), ex_slide (lit ''B''), ex_slide (lit ''C''),
              ex_slide (lit ''D''), ex_slide (lit ''E'')]"

definition ex_five_images :: image_map where
  "ex_five_images =
     [0 \<mapsto> Some ex_png, 1 \<mapsto> Some ex_png, 2 \<mapsto> None, 3 \<mapsto> Some ex_png, 4 \<mapsto> Some ex_png]"

section \<open>Evaluating the concrete inputs\<close>

lemmas ex_defs = ex_env_def ex_env_down_def ex_client_def ex_down_def ex_loads_def ex_image_error_def
  ex_save_def ex_world_def ex_slide_def ex_untitled_def ex_outline_def ex_png_def
  ex_image_response_def ex_parts_def ex_text_response_def ex_bare_response_def

lemmas prog_defs = generate_presentation_slide_images_def try_image_def generate_content_def
  image_request_def first_candidate_parts_def IMAGE_MODEL_NAME_def TEXT_MODEL_NAME_def lit_def

section \<open>Normalising the outline text\<close>












section \<open>Failure of the outline stage\<close>

lemma parse_outline_fails:
  assumes "answer = Inl e \<or>
     (\<exists>r. answer = Inr r \<and>
        (first_part_text r = Inl e \<or>
         (\<exists>t. first_part_text r = Inr t \<and> json_loads E (json_text t) = Inl e)))"
  shows "parse_outline E answer = Inl e"
  using assms by (auto simp: parse_outline_def)

text \<open>
  Claim C4: when the outline request fails (the service raises, the response has no first
  text part, or \<open>json.loads\<close> raises), \<open>generate_presentation_slide_text\<close> returns
  \<open>None\<close>, and the main block ends there: the only request logged is the outline request
  (no image was asked for) and the files are unchanged (no document was written).
\<close>

theorem outline_failure_halts:
  assumes "outline_answer E w topic n = Inl e \<or>
     (\<exists>r. outline_answer E w topic n = Inr r \<and>
        (first_part_text r = Inl e \<or>
         (\<exists>t. first_part_text r = Inr t \<and> json_loads E (json_text t) = Inl e)))"
  shows "generate_presentation_slide_text E topic n w =
           (JNull, w\<lparr>requests := requests w @ [outline_request topic n]\<rparr>) \<and>
         (topic = lit ''The Future of Quantum Computing'' \<and> n = 5 \<longrightarrow>
            main E w = (Inr (), w\<lparr>requests := requests w @ [outline_request topic n]\<rparr>) \<and>
            files (snd (main E w)) = files w)"
proof -
  have "parse_outline E (outline_answer E w topic n) = Inl e"
    by (rule parse_outline_fails [OF assms])
  then have 1: "generate_presentation_slide_text E topic n w =
           (JNull, w\<lparr>requests := requests w @ [outline_request topic n]\<rparr>)"
    by (simp add: generate_presentation_slide_text_def generate_content_def outline_answer_def)
  then have "main E w = (Inr (), w\<lparr>requests := requests w @ [outline_request topic n]\<rparr>)"
    if "topic = lit ''The Future of Quantum Computing''" "n = 5"
    using that by (simp add: main_def)
  with 1 show ?thesis by simp
qed

text \<open>The service is down.\<close>

theorem outline_failure_halts_witness:
  "outline_answer ex_env_down ex_world (lit ''The Future of Quantum Computing'') 5 =
     Inl (ServiceError (lit ''503'')) \<and>
   generate_presentation_slide_text ex_env_down (lit ''The Future of Quantum Computing'') 5 ex_world =
     (JNull, ex_world\<lparr>requests := [outline_request (lit ''The Future of Quantum Computing'') 5]\<rparr>) \<and>
   main ex_env_down ex_world =
     (Inr (), ex_world\<lparr>requests := [outline_request (lit ''The Future of Quantum Computing'') 5]\<rparr>)"
proof -
  have h: "outline_answer ex_env_down ex_world (lit ''The Future of Quantum Computing'') 5 =
     Inl (ServiceError (lit ''503''))"
    by (simp add: outline_answer_def ex_env_down_def ex_down_def)
  have r: "requests ex_world = []" by (simp add: ex_world_def)
  from outline_failure_halts [of ex_env_down ex_world "lit ''The Future of Quantum Computing''" 5
        "ServiceError (lit ''503'')"] h r
  show ?thesis by simp
qed

section \<open>The image loop\<close>

lemma has_field_iff: "has_field v k \<longleftrightarrow> (\<exists>x. getitem v k = Inr x)"
  by (simp add: has_field_def split: sum.splits)

lemma snd_try_image:
  "snd (try_image E p w) = w\<lparr>requests := requests w @ [image_request p]\<rparr>"
  by (simp add: try_image_def generate_content_def split: sum.splits)

lemma world_at_0: "world_at w sl 0 = w"
  by (simp add: world_at_def)

lemma world_at_Suc:
  "world_at w (s # sl) (Suc k) =
   world_at (w\<lparr>requests := requests w @ [image_request (image_prompt_of s)]\<rparr>) sl k"
  by (simp add: world_at_def)

lemma attempt_0:
  "attempt E w (s # sl) 0 = fst (try_image E (image_prompt_of s) w)"
  by (simp add: attempt_def world_at_0)

lemma attempt_Suc:
  "attempt E w (s # sl) (Suc k) =
   attempt E (w\<lparr>requests := requests w @ [image_request (image_prompt_of s)]\<rparr>) sl k"
  by (simp add: attempt_def world_at_Suc)

lemma images_loop_step:
  assumes "slide_readable s"
  shows "images_loop E i (s # rest) images w =
         images_loop E (Suc i) rest (images(i \<mapsto> absorb (attempt E w (s # rest) 0)))
           (w\<lparr>requests := requests w @ [image_request (image_prompt_of s)]\<rparr>)"
proof -
  from assms obtain p t where p: "getitem s (lit ''image_prompt'') = Inr p"
    and t: "getitem s (lit ''slide_title'') = Inr t"
    by (auto simp: slide_readable_def has_field_iff)
  have ip: "image_prompt_of s = p" by (simp add: image_prompt_of_def p)
  obtain r w' where tr: "try_image E p w = (r, w')" by (cases "try_image E p w")
  have w': "w' = w\<lparr>requests := requests w @ [image_request p]\<rparr>"
    using snd_try_image [of E p w] tr by simp
  show ?thesis
    by (simp add: p t tr ip attempt_0 w')
qed

lemma images_loop_readable:
  assumes "list_all slide_readable sl"
  shows "images_loop E i sl images w =
         (Inr (\<lambda>k. if i \<le> k \<and> k < i + length sl then Some (absorb (attempt E w sl (k - i)))
                    else images k),
          world_at w sl (length sl))"
  using assms
proof (induction sl arbitrary: i images w)
  case Nil
  have "(\<lambda>k. if i \<le> k \<and> k < i then Some (absorb (attempt E w [] (k - i))) else images k) = images"
    by (rule ext) auto
  then show ?case by (simp add: world_at_0)
next
  case (Cons s rest)
  then have s: "slide_readable s" and rest: "list_all slide_readable rest" by simp_all
  let ?w = "w\<lparr>requests := requests w @ [image_request (image_prompt_of s)]\<rparr>"
  have f: "(\<lambda>k. if Suc i \<le> k \<and> k < Suc i + length rest
                 then Some (absorb (attempt E ?w rest (k - Suc i)))
                 else (images(i \<mapsto> absorb (attempt E w (s # rest) 0))) k) =
           (\<lambda>k. if i \<le> k \<and> k < i + length (s # rest)
                 then Some (absorb (attempt E w (s # rest) (k - i))) else images k)"
  proof
    fix k
    show "(if Suc i \<le> k \<and> k < Suc i + length rest
                 then Some (absorb (attempt E ?w rest (k - Suc i)))
                 else (images(i \<mapsto> absorb (attempt E w (s # rest) 0))) k) =
          (if i \<le> k \<and> k < i + length (s # rest)
                 then Some (absorb (attempt E w (s # rest) (k - i))) else images k)"
    proof (cases "k = i")
      case True
      then show ?thesis by simp
    next
      case False
      show ?thesis
      proof (cases "Suc i \<le> k")
        case True
        then have "k - i = Suc (k - Suc i)" by simp
        then show ?thesis using True by (simp add: attempt_Suc)
      next
        case False
        then show ?thesis using \<open>k \<noteq> i\<close> by simp
      qed
    qed
  qed
  show ?case
    by (simp only: images_loop_step [OF s] Cons.IH [OF rest] f)
       (simp add: world_at_Suc)
qed

lemma images_loop_append:
  assumes "images_loop E i xs images w = (Inr im, w')"
  shows "images_loop E i (xs @ ys) images w = images_loop E (i + length xs) ys im w'"
  using assms
proof (induction xs arbitrary: i images w)
  case Nil
  then show ?case by simp
next
  case (Cons s xs)
  show ?case
  proof (cases "getitem s (lit ''image_prompt'')")
    case (Inl e)
    then show ?thesis using Cons.prems by simp
  next
    case p: (Inr p)
    show ?thesis
    proof (cases "getitem s (lit ''slide_title'')")
      case (Inl e)
      then show ?thesis using Cons.prems by (simp add: p)
    next
      case t: (Inr t)
      obtain r w1 where tr: "try_image E p w = (r, w1)" by (cases "try_image E p w")
      have "images_loop E (Suc i) xs (images(i \<mapsto> absorb r)) w1 = (Inr im, w')"
        using Cons.prems by (simp add: p t tr)
      from Cons.IH [OF this] show ?thesis
        by (simp add: p t tr fun_upd_def)
    qed
  qed
qed

lemma images_loop_raises_alike:
  assumes "fst (images_loop E i sl images w) = Inl e"
  shows "fst (images_loop E' i' sl images' w') = Inl e"
  using assms
proof (induction sl arbitrary: i images w i' images' w')
  case Nil
  then show ?case by simp
next
  case (Cons s rest)
  show ?case
  proof (cases "getitem s (lit ''image_prompt'')")
    case (Inl x)
    then show ?thesis using Cons.prems by simp
  next
    case p: (Inr p)
    show ?thesis
    proof (cases "getitem s (lit ''slide_title'')")
      case (Inl x)
      then show ?thesis using Cons.prems by (simp add: p)
    next
      case t: (Inr t)
      obtain r w1 where tr: "try_image E p w = (r, w1)" by (cases "try_image E p w")
      obtain r' w1' where tr': "try_image E' p w' = (r', w1')" by (cases "try_image E' p w'")
      have "fst (images_loop E (Suc i) rest (images(i \<mapsto> absorb r)) w1) = Inl e"
        using Cons.prems by (simp add: p t tr)
      then have "fst (images_loop E' (Suc i') rest (images'(i' \<mapsto> absorb r')) w1') = Inl e"
        by (rule Cons.IH)
      then show ?thesis by (simp add: p t tr')
    qed
  qed
qed

lemma slide_images_raises_alike:
  assumes "fst (generate_presentation_slide_images E outline w) = Inl e"
  shows "fst (generate_presentation_slide_images E' outline w') = Inl e"
proof (cases "getitem outline (lit ''slides'')")
  case (Inl x)
  then show ?thesis using assms by (simp add: generate_presentation_slide_images_def)
next
  case ss: (Inr ss)
  show ?thesis
  proof (cases "py_iter ss")
    case (Inl x)
    then show ?thesis using assms by (simp add: generate_presentation_slide_images_def ss)
  next
    case (Inr sl)
    then have "fst (images_loop E 0 sl Map.empty w) = Inl e"
      using assms by (simp add: generate_presentation_slide_images_def ss)
    then have "fst (images_loop E' 0 sl Map.empty w') = Inl e"
      by (rule images_loop_raises_alike)
    then show ?thesis by (simp add: generate_presentation_slide_images_def ss Inr)
  qed
qed

lemma attempt_eq:
  "attempt E w sl k =
   (case answer_at E w sl k of
      Inl e \<Rightarrow> Inl e
    | Inr r \<Rightarrow> (case first_candidate_parts r of Inl e \<Rightarrow> Inl e | Inr ps \<Rightarrow> Inr (scan_parts ps)))"
  by (simp add: attempt_def answer_at_def try_image_def generate_content_def split: sum.splits)

lemma slide_images_readable:
  assumes "getitem outline (lit ''slides'') = Inr (JArr sl)" and "list_all slide_readable sl"
  shows "generate_presentation_slide_images E outline w =
         (Inr (\<lambda>k. if k < length sl then Some (absorb (attempt E w sl k)) else None),
          world_at w sl (length sl))"
  using images_loop_readable [OF assms(2), of E 0 Map.empty w] assms(1)
  by (simp add: generate_presentation_slide_images_def cong: if_cong)

lemma scan_parts_none: "list_all no_inline_data ps \<Longrightarrow> scan_parts ps = None"
  by (induction ps) (simp_all add: no_inline_data_def)

lemma scan_parts_first:
  "list_all no_inline_data pre \<Longrightarrow> inline_data p = Some b \<Longrightarrow>
   scan_parts (pre @ p # post) = data b"
  by (induction pre) (simp_all add: no_inline_data_def)

lemma ex_two_slides:
  "getitem (ex_outline [ex_slide (lit ''A''), ex_slide (lit ''B'')]) (lit ''slides'') =
     Inr (JArr [ex_slide (lit ''A''), ex_slide (lit ''B'')])"
  "list_all slide_readable [ex_slide (lit ''A''), ex_slide (lit ''B'')]"
  by (simp_all add: ex_outline_def ex_slide_def slide_readable_def has_field_def lit_def)

lemma ex_answers:
  "answer_at ex_env ex_world [ex_slide (lit ''A''), ex_slide (lit ''B'')] 0 =
     Inl (ServiceError (lit ''503''))"
  "answer_at ex_env ex_world [ex_slide (lit ''A''), ex_slide (lit ''B'')] 1 =
     Inr ex_image_response"
  by (simp_all add: answer_at_def world_at_def ex_env_def ex_client_def ex_world_def
      image_request_def IMAGE_MODEL_NAME_def TEXT_MODEL_NAME_def lit_def)

text \<open>
  Claim C1 as it is stated asks of the slide objects only that each carries an
  \<open>image_prompt\<close>. A slide object that has an \<open>image_prompt\<close> and no \<open>slide_title\<close>
  makes line 64 raise \<open>KeyError\<close> before the \<open>try\<close>: the function returns no map.
\<close>

theorem untitled_slide_counterexample:
  "getitem (ex_outline [ex_untitled]) (lit ''slides'') = Inr (JArr [ex_untitled]) \<and>
   has_field ex_untitled (lit ''image_prompt'') \<and>
   generate_presentation_slide_images ex_env (ex_outline [ex_untitled]) ex_world =
     (Inl (KeyError (lit ''slide_title'')), ex_world)"
  by (simp add: ex_defs prog_defs has_field_def)

text \<open>
  Claim C1, amended: for every outline whose \<open>slides\<close> field is a list of \<open>N\<close> slide
  objects each carrying an \<open>image_prompt\<close> and a \<open>slide_title\<close>, whatever the service
  answers, \<open>generate_presentation_slide_images\<close> returns a map whose keys are exactly the
  indices below \<open>N\<close>, each value being \<open>None\<close> or image data.
\<close>

theorem slide_images_complete:
  assumes "getitem outline (lit ''slides'') = Inr (JArr sl)" and "list_all slide_readable sl"
  shows "\<exists>images w'. generate_presentation_slide_images E outline w = (Inr images, w') \<and>
           dom images = {..<length sl} \<and>
           (\<forall>i<length sl. images i = Some None \<or> (\<exists>b. images i = Some (Some b)))"
proof -
  let ?images = "\<lambda>k. if k < length sl then Some (absorb (attempt E w sl k)) else None"
  have "dom ?images = {..<length sl}"
    by (auto simp: dom_def)
  moreover have "\<forall>i<length sl. ?images i = Some None \<or> (\<exists>b. ?images i = Some (Some b))"
    by auto
  ultimately show ?thesis
    unfolding slide_images_readable [OF assms] by blast
qed

text \<open>Two slides, the first request failing: the map has the keys 0 and 1.\<close>

theorem slide_images_complete_witness:
  "getitem (ex_outline [ex_slide (lit ''A''), ex_slide (lit ''B'')]) (lit ''slides'') =
     Inr (JArr [ex_slide (lit ''A''), ex_slide (lit ''B'')]) \<and>
   list_all slide_readable [ex_slide (lit ''A''), ex_slide (lit ''B'')] \<and>
   (\<exists>images w'. generate_presentation_slide_images ex_env
        (ex_outline [ex_slide (lit ''A''), ex_slide (lit ''B'')]) ex_world = (Inr images, w') \<and>
      dom images = {..<2})"
proof -
  let ?sl = "[ex_slide (lit ''A''), ex_slide (lit ''B'')]"
  have h1: "getitem (ex_outline ?sl) (lit ''slides'') = Inr (JArr ?sl)"
    by (simp add: ex_outline_def lit_def)
  have h2: "list_all slide_readable ?sl"
    by (simp add: ex_slide_def slide_readable_def has_field_def lit_def)
  have "length ?sl = 2" by simp
  with slide_images_complete [OF h1 h2, of ex_env ex_world] h1 h2 show ?thesis
    by metis
qed

text \<open>
  Claim C2: when every slide carries the two fields read before the \<open>try\<close>, a failure
  of the service call for a slide, or of reading \<open>candidates[0].content.parts\<close> of its
  response, is caught and stored as \<open>None\<close> for that index; every slide is processed
  whatever happened to the earlier ones (one request is logged for each slide, and each
  entry is what the \<open>try\<close> of that slide gives), and the function returns a map. And for
  any outline at all, an exception that leaves the function leaves it whatever the service
  answers: it comes from the outline (lines 62 to 64), never from the generation of an
  image.
\<close>

theorem slide_failures_absorbed:
  "(getitem outline (lit ''slides'') = Inr (JArr sl) \<and> list_all slide_readable sl \<longrightarrow>
      (\<exists>images w'. generate_presentation_slide_images E outline w = (Inr images, w') \<and>
         (\<forall>k<length sl. \<forall>e.
            answer_at E w sl k = Inl e \<or>
            (\<exists>r. answer_at E w sl k = Inr r \<and> first_candidate_parts r = Inl e)
            \<longrightarrow> images k = Some None) \<and>
         (\<forall>k<length sl. images k = Some (absorb (attempt E w sl k))) \<and>
         requests w' = requests w @ map (\<lambda>s. image_request (image_prompt_of s)) sl)) \<and>
   (\<forall>e E' w'. fst (generate_presentation_slide_images E outline w) = Inl e \<longrightarrow>
      fst (generate_presentation_slide_images E' outline w') = Inl e)"
proof (intro conjI impI allI)
  assume a: "getitem outline (lit ''slides'') = Inr (JArr sl) \<and> list_all slide_readable sl"
  let ?images = "\<lambda>k. if k < length sl then Some (absorb (attempt E w sl k)) else None"
  have "?images k = Some None"
    if "k < length sl"
      and "answer_at E w sl k = Inl e \<or>
           (\<exists>r. answer_at E w sl k = Inr r \<and> first_candidate_parts r = Inl e)"
    for k e
    using that by (auto simp: attempt_eq)
  moreover have "requests (world_at w sl (length sl)) =
      requests w @ map (\<lambda>s. image_request (image_prompt_of s)) sl"
    by (simp add: world_at_def)
  ultimately show "\<exists>images w'. generate_presentation_slide_images E outline w = (Inr images, w') \<and>
         (\<forall>k<length sl. \<forall>e.
            answer_at E w sl k = Inl e \<or>
            (\<exists>r. answer_at E w sl k = Inr r \<and> first_candidate_parts r = Inl e)
            \<longrightarrow> images k = Some None) \<and>
         (\<forall>k<length sl. images k = Some (absorb (attempt E w sl k))) \<and>
         requests w' = requests w @ map (\<lambda>s. image_request (image_prompt_of s)) sl"
    unfolding slide_images_readable [OF conjunct1 [OF a] conjunct2 [OF a]] by auto
next
  fix e E' w'
  assume "fst (generate_presentation_slide_images E outline w) = Inl e"
  then show "fst (generate_presentation_slide_images E' outline w') = Inl e"
    by (rule slide_images_raises_alike)
qed

text \<open>The request for slide 0 fails: slide 0 maps to \<open>None\<close>, and both requests are made.\<close>

theorem slide_failures_absorbed_witness:
  "getitem (ex_outline [ex_slide (lit ''A''), ex_slide (lit ''B'')]) (lit ''slides'') =
     Inr (JArr [ex_slide (lit ''A''), ex_slide (lit ''B'')]) \<and>
   list_all slide_readable [ex_slide (lit ''A''), ex_slide (lit ''B'')] \<and>
   answer_at ex_env ex_world [ex_slide (lit ''A''), ex_slide (lit ''B'')] 0 =
     Inl (ServiceError (lit ''503'')) \<and>
   (\<exists>images w'. generate_presentation_slide_images ex_env
        (ex_outline [ex_slide (lit ''A''), ex_slide (lit ''B'')]) ex_world = (Inr images, w') \<and>
      images 0 = Some None \<and> length (requests w') = 2)"
proof -
  let ?sl = "[ex_slide (lit ''A''), ex_slide (lit ''B'')]"
  from slide_failures_absorbed [of "ex_outline ?sl" ?sl ex_env ex_world] ex_two_slides obtain images w'
    where r: "generate_presentation_slide_images ex_env (ex_outline ?sl) ex_world = (Inr images, w')"
      and a: "\<And>k e. k < length ?sl \<Longrightarrow>
                answer_at ex_env ex_world ?sl k = Inl e \<or>
                (\<exists>r. answer_at ex_env ex_world ?sl k = Inr r \<and> first_candidate_parts r = Inl e)
                \<Longrightarrow> images k = Some None"
      and q: "requests w' = requests ex_world @ map (\<lambda>s. image_request (image_prompt_of s)) ?sl"
    by blast
  have "images 0 = Some None"
    by (rule a [of 0 "ServiceError (lit ''503'')"]) (simp_all add: ex_answers)
  moreover have "length (requests w') = 2"
    by (simp add: q ex_world_def)
  ultimately show ?thesis
    using r ex_two_slides ex_answers by blast
qed

text \<open>
  Claim C7: when the service answers the request for slide \<open>k\<close> with a response whose
  parts are \<open>ps\<close>, the entry for \<open>k\<close> is \<open>None\<close> if no part of \<open>ps\<close> has inline data, and
  otherwise the data of the first part of \<open>ps\<close>, in order, that has inline data.
\<close>

theorem first_inline_data_recorded:
  assumes "getitem outline (lit ''slides'') = Inr (JArr sl)" and "list_all slide_readable sl"
    and "k < length sl"
    and "answer_at E w sl k = Inr r" and "first_candidate_parts r = Inr ps"
  shows "\<exists>images w'. generate_presentation_slide_images E outline w = (Inr images, w') \<and>
           (list_all no_inline_data ps \<longrightarrow> images k = Some None) \<and>
           (\<forall>pre p b post.
              ps = pre @ p # post \<and> list_all no_inline_data pre \<and> inline_data p = Some b
              \<longrightarrow> images k = Some (data b))"
proof -
  let ?images = "\<lambda>k. if k < length sl then Some (absorb (attempt E w sl k)) else None"
  have k: "?images k = Some (scan_parts ps)"
    using assms(3-5) by (simp add: attempt_eq)
  have "list_all no_inline_data ps \<longrightarrow> ?images k = Some None"
    unfolding k by (simp add: scan_parts_none)
  moreover have "\<forall>pre p b post.
      ps = pre @ p # post \<and> list_all no_inline_data pre \<and> inline_data p = Some b
      \<longrightarrow> ?images k = Some (data b)"
    unfolding k by (auto simp: scan_parts_first)
  ultimately show ?thesis
    unfolding slide_images_readable [OF assms(1,2)] by blast
qed

text \<open>
  A caption, then an image, then another image: the first image is stored for slide 1.
\<close>

theorem first_inline_data_recorded_witness:
  "getitem (ex_outline [ex_slide (lit ''A''), ex_slide (lit ''B'')]) (lit ''slides'') =
     Inr (JArr [ex_slide (lit ''A''), ex_slide (lit ''B'')]) \<and>
   list_all slide_readable [ex_slide (lit ''A''), ex_slide (lit ''B'')] \<and>
   answer_at ex_env ex_world [ex_slide (lit ''A''), ex_slide (lit ''B'')] 1 =
     Inr ex_image_response \<and>
   first_candidate_parts ex_image_response = Inr ex_parts \<and>
   (\<exists>images w'. generate_presentation_slide_images ex_env
        (ex_outline [ex_slide (lit ''A''), ex_slide (lit ''B'')]) ex_world = (Inr images, w') \<and>
      images 1 = Some (Some ex_png))"
proof -
  let ?sl = "[ex_slide (lit ''A''), ex_slide (lit ''B'')]"
  let ?p = "\<lparr>part_text = None,
       inline_data = Some \<lparr>mime_type = Some (lit ''image/png''), data = Some ex_png\<rparr>\<rparr>"
  have k: "1 < length ?sl" by simp
  have ps: "first_candidate_parts ex_image_response = Inr ex_parts"
    by (simp add: first_candidate_parts_def ex_image_response_def)
  from first_inline_data_recorded [OF ex_two_slides k ex_answers(2) ps] obtain images w'
    where r: "generate_presentation_slide_images ex_env (ex_outline ?sl) ex_world = (Inr images, w')"
      and a: "\<And>pre p b post. ex_parts = pre @ p # post \<and> list_all no_inline_data pre \<and>
                inline_data p = Some b \<Longrightarrow> images 1 = Some (data b)"
    by blast
  have "images 1 = Some (data \<lparr>mime_type = Some (lit ''image/png''), data = Some ex_png\<rparr>)"
    by (rule a [of "[\<lparr>part_text = Some (lit ''caption''), inline_data = None\<rparr>]" ?p])
       (simp add: ex_parts_def no_inline_data_def)
  then have "images 1 = Some (Some ex_png)" by simp
  then show ?thesis
    using r ex_two_slides ex_answers(2) ps by blast
qed

text \<open>
  Claim C9: the subscripts of lines 63 and 64 are outside the \<open>try\<close>. When the slide at
  index \<open>k\<close> is an object without \<open>image_prompt\<close> or without \<open>slide_title\<close>, and the slides
  before it have both, the function raises \<open>KeyError\<close> for the missing field (the first of
  the two that is missing) to its caller, after the requests for the slides before \<open>k\<close>:
  nothing is stored for \<open>k\<close> and the slides after it are not processed.
\<close>

theorem missing_field_escapes:
  assumes slides: "getitem outline (lit ''slides'') = Inr (JArr sl)"
    and k: "k < length sl"
    and before: "list_all slide_readable (take k sl)"
    and obj: "sl ! k = JObj kvs"
    and missing: "map_of kvs (lit ''image_prompt'') = None \<or> map_of kvs (lit ''slide_title'') = None"
  shows "generate_presentation_slide_images E outline w =
         (Inl (KeyError (if map_of kvs (lit ''image_prompt'') = None then lit ''image_prompt''
                         else lit ''slide_title'')),
          world_at w sl k)"
proof -
  let ?e = "KeyError (if map_of kvs (lit ''image_prompt'') = None then lit ''image_prompt''
                      else lit ''slide_title'')"
  have split: "sl = take k sl @ JObj kvs # drop (Suc k) sl"
    using k obj id_take_nth_drop by metis
  have pre: "images_loop E 0 (take k sl) Map.empty w =
      (Inr (\<lambda>j. if 0 \<le> j \<and> j < 0 + length (take k sl)
                 then Some (absorb (attempt E w (take k sl) (j - 0))) else None),
       world_at w (take k sl) (length (take k sl)))"
    by (rule images_loop_readable [OF before])
  have wk: "world_at w (take k sl) (length (take k sl)) = world_at w sl k"
    using k by (simp add: world_at_def)
  have here: "images_loop E i (JObj kvs # rest) im w1 = (Inl ?e, w1)" for i rest im w1
    using missing by (auto split: option.splits)
  have "images_loop E 0 (take k sl @ JObj kvs # drop (Suc k) sl) Map.empty w = (Inl ?e, world_at w sl k)"
    by (simp only: images_loop_append [OF pre] here wk)
  then have "images_loop E 0 sl Map.empty w = (Inl ?e, world_at w sl k)"
    using split by simp
  then show ?thesis
    by (simp add: generate_presentation_slide_images_def slides)
qed

text \<open>The second slide has no \<open>slide_title\<close>.\<close>

theorem missing_field_escapes_witness:
  "getitem (ex_outline [ex_slide (lit ''A''), ex_untitled]) (lit ''slides'') =
     Inr (JArr [ex_slide (lit ''A''), ex_untitled]) \<and>
   list_all slide_readable (take 1 [ex_slide (lit ''A''), ex_untitled]) \<and>
   [ex_slide (lit ''A''), ex_untitled] ! 1 = JObj [(lit ''image_prompt'', JStr (lit ''...''))] \<and>
   map_of [(lit ''image_prompt'', JStr (lit ''...''))] (lit ''slide_title'') = None \<and>
   fst (generate_presentation_slide_images ex_env
          (ex_outline [ex_slide (lit ''A''), ex_untitled]) ex_world) =
     Inl (KeyError (lit ''slide_title''))"
proof -
  let ?sl = "[ex_slide (lit ''A''), ex_untitled]"
  let ?kvs = "[(lit ''image_prompt'', JStr (lit ''...''))]"
  have h1: "getitem (ex_outline ?sl) (lit ''slides'') = Inr (JArr ?sl)"
    by (simp add: ex_outline_def lit_def)
  have h2: "1 < length ?sl" by simp
  have h3: "list_all slide_readable (take 1 ?sl)"
    by (simp add: ex_slide_def slide_readable_def has_field_def lit_def)
  have h4: "?sl ! 1 = JObj ?kvs" by (simp add: ex_untitled_def)
  have h5: "map_of ?kvs (lit ''slide_title'') = None" by (simp add: lit_def)
  then have h6: "map_of ?kvs (lit ''image_prompt'') = None \<or> map_of ?kvs (lit ''slide_title'') = None"
    by simp
  have h7: "map_of ?kvs (lit ''image_prompt'') \<noteq> None" by simp
  from missing_field_escapes [OF h1 h2 h3 h4 h6, of ex_env ex_world] h7
  have "fst (generate_presentation_slide_images ex_env (ex_outline ?sl) ex_world) =
     Inl (KeyError (lit ''slide_title''))"
    by simp
  with h1 h3 h4 h5 show ?thesis by blast
qed

section \<open>Assembling the document\<close>

lemma is_str_iff: "is_str v \<longleftrightarrow> (\<exists>s. v = JStr s)"
  by (cases v) (simp_all add: is_str_def)

lemma all_str: "list_all is_str xs \<Longrightarrow> \<exists>pts. xs = map JStr pts"
proof (induction xs)
  case Nil
  then show ?case by simp
next
  case (Cons x xs)
  then obtain s pts where "x = JStr s" "xs = map JStr pts"
    by (auto simp: is_str_iff)
  then have "x # xs = map JStr (s # pts)" by simp
  then show ?case by (rule exI)
qed

lemma is_str_list_iff: "is_str_list v \<longleftrightarrow> (\<exists>pts. v = JArr (map JStr pts))"
proof
  assume "is_str_list v"
  then show "\<exists>pts. v = JArr (map JStr pts)"
    by (cases v) (auto simp: is_str_list_def dest: all_str)
next
  assume "\<exists>pts. v = JArr (map JStr pts)"
  then show "is_str_list v"
    by (auto simp: is_str_list_def list_all_iff is_str_iff)
qed

lemma slide_spec_ok_iff:
  "slide_spec_ok s \<longleftrightarrow>
   (\<exists>t pts. getitem s (lit ''slide_title'') = Inr (JStr t) \<and>
            getitem s (lit ''key_points'') = Inr (JArr (map JStr pts)))"
  by (auto simp: slide_spec_ok_def is_str_iff is_str_list_iff split: sum.splits)

lemma add_key_points_strs:
  "add_key_points (map JStr pts) ps = Inr (ps @ map key_point_paragraph pts)"
  by (induction pts arbitrary: ps) simp_all

lemma readable_image_iff:
  "readable_image E images i \<longleftrightarrow> (\<exists>b. images i = Some (Some b) \<and> image_error E b = None)"
  by (auto simp: readable_image_def split: option.splits)

lemma run_ret: "ret x st = (Inr x, st)"
  by (simp add: ret_def)

lemma run_update_prs: "update_prs g st = (Inr (), st\<lparr>f_prs := g (f_prs st)\<rparr>)"
  by (simp add: update_prs_def)

lemma run_and_then:
  "and_then (ret x) f st = f x st"
  "and_then (lift (Inr x)) f st = f x st"
  "and_then (lift (Inl e)) g st = (Inl e, st)"
  "and_then read_outline f1 st = f1 (f_outline st) st"
  "and_then read_images f2 st = f2 (f_images st) st"
  "and_then read_prs f3 st = f3 (f_prs st) st"
  "and_then (update_prs h) f4 st = f4 () (st\<lparr>f_prs := h (f_prs st)\<rparr>)"
  by (simp_all add: and_then_def ret_def lift_def read_outline_def read_images_def read_prs_def
      update_prs_def)

lemma add_shape_add_slide: "add_shape sh (add_slide s p) = add_slide (s @ [sh]) p"
  by (simp add: add_shape_def add_slide_def)

lemma set_slide_add_slide: "set_slide s (add_slide s0 p) = add_slide s p"
  by (simp add: set_slide_def add_slide_def)

lemma slide_width_add_slide: "slide_width (add_slide s p) = slide_width p"
  by (simp add: add_slide_def)

lemma content_slide_spec:
  assumes t: "getitem sd (lit ''slide_title'') = Inr (JStr t)"
    and kp: "getitem sd (lit ''key_points'') = Inr (JArr (map JStr pts))"
  shows "content_slide E i sd st =
         (case f_images st i of
            Some (Some img) \<Rightarrow>
              (case image_error E img of
                 Some e \<Rightarrow>
                   (Inl e, st\<lparr>f_prs := add_slide
                      [header_band (slide_width (f_prs st)),
                       title_textbox (slide_width (f_prs st)) t,
                       body_textbox (new_paragraph # map key_point_paragraph pts)] (f_prs st)\<rparr>)
               | None \<Rightarrow>
                   (Inr (), st\<lparr>f_prs := add_slide
                      [header_band (slide_width (f_prs st)),
                       title_textbox (slide_width (f_prs st)) t,
                       body_textbox (new_paragraph # map key_point_paragraph pts),
                       add_picture img] (f_prs st)\<rparr>))
          | Some None \<Rightarrow>
              (Inr (), st\<lparr>f_prs := add_slide
                 [header_band (slide_width (f_prs st)),
                  title_textbox (slide_width (f_prs st)) t,
                  body_textbox (new_paragraph # map key_point_paragraph pts)] (f_prs st)\<rparr>)
          | None \<Rightarrow>
              (Inr (), st\<lparr>f_prs := add_slide
                 [header_band (slide_width (f_prs st)),
                  title_textbox (slide_width (f_prs st)) t,
                  body_textbox (new_paragraph # map key_point_paragraph pts)] (f_prs st)\<rparr>))"
  by (simp add: content_slide_def run_and_then run_ret run_update_prs t kp add_key_points_strs
      new_textbox_frame_def add_shape_add_slide slide_width_add_slide
      split: option.splits)

lemma pictures_content [simp]:
  "pictures [header_band wd, title_textbox wd t, body_textbox ps] = []"
  "pictures [header_band wd, title_textbox wd t, body_textbox ps, add_picture b] = [add_picture b]"
  by (simp_all add: pictures_def header_band_def title_textbox_def body_textbox_def add_picture_def
      Let_def)

lemma content_slide_ok:
  assumes ok: "slide_spec_ok sd"
    and img: "\<And>b. f_images st i = Some (Some b) \<Longrightarrow> image_error E b = None"
  shows "\<exists>s. content_slide E i sd st = (Inr (), st\<lparr>f_prs := add_slide s (f_prs st)\<rparr>) \<and>
             pictures s = (case f_images st i of Some (Some b) \<Rightarrow> [add_picture b]
                           | Some None \<Rightarrow> [] | None \<Rightarrow> [])"
proof -
  from ok obtain t pts where t: "getitem sd (lit ''slide_title'') = Inr (JStr t)"
    and kp: "getitem sd (lit ''key_points'') = Inr (JArr (map JStr pts))"
    by (auto simp: slide_spec_ok_iff)
  let ?s = "[header_band (slide_width (f_prs st)), title_textbox (slide_width (f_prs st)) t,
             body_textbox (new_paragraph # map key_point_paragraph pts)]"
  show ?thesis
  proof (cases "f_images st i")
    case None
    then have "content_slide E i sd st = (Inr (), st\<lparr>f_prs := add_slide ?s (f_prs st)\<rparr>)"
      by (simp add: content_slide_spec [OF t kp])
    moreover have "pictures ?s = []" by simp
    ultimately show ?thesis using None by (intro exI [of _ ?s]) simp
  next
    case (Some v)
    show ?thesis
    proof (cases v)
      case None
      then have "content_slide E i sd st = (Inr (), st\<lparr>f_prs := add_slide ?s (f_prs st)\<rparr>)"
        using Some by (simp add: content_slide_spec [OF t kp])
      moreover have "pictures ?s = []" by simp
      ultimately show ?thesis using Some None by (intro exI [of _ ?s]) simp
    next
      case b: (Some b)
      then have "image_error E b = None" using Some img by simp
      then have "content_slide E i sd st =
          (Inr (), st\<lparr>f_prs := add_slide (?s @ [add_picture b]) (f_prs st)\<rparr>)"
        using Some b by (simp add: content_slide_spec [OF t kp])
      moreover have "pictures (?s @ [add_picture b]) = [add_picture b]" by simp
      ultimately show ?thesis using Some b by (intro exI [of _ "?s @ [add_picture b]"]) simp
    qed
  qed
qed

lemma content_slides_ok:
  assumes "\<forall>k<length sl. slide_spec_ok (sl ! k) \<and>
             (\<forall>b. f_images st (i + k) = Some (Some b) \<longrightarrow> image_error E b = None)"
  shows "\<exists>ss. content_slides E i sl st =
                 (Inr (), st\<lparr>f_prs := (f_prs st)\<lparr>slides := slides (f_prs st) @ ss\<rparr>\<rparr>) \<and>
              length ss = length sl \<and>
              (\<forall>k<length sl. pictures (ss ! k) =
                 (case f_images st (i + k) of Some (Some b) \<Rightarrow> [add_picture b]
                  | Some None \<Rightarrow> [] | None \<Rightarrow> []))"
  using assms
proof (induction sl arbitrary: i st)
  case Nil
  have "st\<lparr>f_prs := (f_prs st)\<lparr>slides := slides (f_prs st) @ []\<rparr>\<rparr> = st" by simp
  then show ?case by (simp add: run_ret)
next
  case (Cons sd rest)
  from Cons.prems [rule_format, of 0]
  have ok: "slide_spec_ok sd"
    and img: "\<And>b. f_images st i = Some (Some b) \<Longrightarrow> image_error E b = None"
    by simp_all
  from content_slide_ok [OF ok img] obtain s
    where s: "content_slide E i sd st = (Inr (), st\<lparr>f_prs := add_slide s (f_prs st)\<rparr>)"
      and ps: "pictures s = (case f_images st i of Some (Some b) \<Rightarrow> [add_picture b]
                             | Some None \<Rightarrow> [] | None \<Rightarrow> [])"
    by blast
  let ?st1 = "st\<lparr>f_prs := add_slide s (f_prs st)\<rparr>"
  have "\<forall>k<length rest. slide_spec_ok (rest ! k) \<and>
          (\<forall>b. f_images ?st1 (Suc i + k) = Some (Some b) \<longrightarrow> image_error E b = None)"
  proof (intro allI impI)
    fix k assume "k < length rest"
    then have "Suc k < length (sd # rest)" by simp
    from Cons.prems [rule_format, OF this]
    show "slide_spec_ok (rest ! k) \<and>
          (\<forall>b. f_images ?st1 (Suc i + k) = Some (Some b) \<longrightarrow> image_error E b = None)"
      by simp
  qed
  from Cons.IH [OF this] obtain ss
    where run: "content_slides E (Suc i) rest ?st1 =
                 (Inr (), ?st1\<lparr>f_prs := (f_prs ?st1)\<lparr>slides := slides (f_prs ?st1) @ ss\<rparr>\<rparr>)"
      and len: "length ss = length rest"
      and pics: "\<forall>k<length rest. pictures (ss ! k) =
                 (case f_images ?st1 (Suc i + k) of Some (Some b) \<Rightarrow> [add_picture b]
                  | Some None \<Rightarrow> [] | None \<Rightarrow> [])"
    by blast
  have eq: "(add_slide s (f_prs st))\<lparr>slides := slides (add_slide s (f_prs st)) @ ss\<rparr> =
        (f_prs st)\<lparr>slides := slides (f_prs st) @ s # ss\<rparr>"
    unfolding add_slide_def by simp
  have st: "?st1\<lparr>f_prs := (f_prs ?st1)\<lparr>slides := slides (f_prs ?st1) @ ss\<rparr>\<rparr> =
            st\<lparr>f_prs := (f_prs st)\<lparr>slides := slides (f_prs st) @ s # ss\<rparr>\<rparr>"
  proof -
    have a: "f_prs ?st1 = add_slide s (f_prs st)" by simp
    have b: "?st1\<lparr>f_prs := Z\<rparr> = st\<lparr>f_prs := Z\<rparr>" for Z by simp
    show ?thesis by (simp only: a b eq)
  qed
  have 1: "content_slides E i (sd # rest) st =
             (Inr (), st\<lparr>f_prs := (f_prs st)\<lparr>slides := slides (f_prs st) @ s # ss\<rparr>\<rparr>)"
    by (simp only: content_slides.simps and_then_def s prod.case sum.case run st)
  have 2: "length (s # ss) = length (sd # rest)" using len by simp
  have 3: "pictures ((s # ss) ! k) =
             (case f_images st (i + k) of Some (Some b) \<Rightarrow> [add_picture b]
              | Some None \<Rightarrow> [] | None \<Rightarrow> [])" if "k < length (sd # rest)" for k
  proof (cases k)
    case 0
    then show ?thesis using ps by simp
  next
    case (Suc j)
    then have "j < length rest" using that by simp
    with pics have "pictures (ss ! j) =
        (case f_images ?st1 (Suc i + j) of Some (Some b) \<Rightarrow> [add_picture b]
         | Some None \<Rightarrow> [] | None \<Rightarrow> [])"
      by blast
    then show ?thesis using Suc by simp
  qed
  from 1 2 3 show ?case by blast
qed

lemma add_title_slide_run:
  assumes title: "getitem (f_outline st) (lit ''title'') = Inr (JStr t)"
  shows "add_title_slide st = (Inr (), st\<lparr>f_prs := add_slide (title_slide t) (f_prs st)\<rparr>)"
  by (simp add: add_title_slide_def run_and_then run_update_prs title set_slide_add_slide)

lemma build_presentation_slides:
  assumes title: "getitem outline (lit ''title'') = Inr (JStr t)"
    and slides: "getitem outline (lit ''slides'') = Inr (JArr sl)"
    and each: "\<forall>k<length sl. slide_spec_ok (sl ! k) \<and>
                 (\<forall>b. images k = Some (Some b) \<longrightarrow> image_error E b = None)"
  shows "\<exists>ss. build_presentation E \<lparr>f_outline = outline, f_images = images, f_prs = Presentation\<rparr> =
                 (Inr (), \<lparr>f_outline = outline, f_images = images,
                           f_prs = Presentation\<lparr>slides := title_slide t # ss\<rparr>\<rparr>) \<and>
              length ss = length sl \<and>
              (\<forall>k<length sl. pictures (ss ! k) =
                 (case images k of Some (Some b) \<Rightarrow> [add_picture b]
                  | Some None \<Rightarrow> [] | None \<Rightarrow> []))"
proof -
  let ?st0 = "\<lparr>f_outline = outline, f_images = images, f_prs = Presentation\<rparr>"
  let ?st1 = "\<lparr>f_outline = outline, f_images = images,
               f_prs = add_slide (title_slide t) Presentation\<rparr>"
  have t0: "add_title_slide ?st0 = (Inr (), ?st1)"
    using add_title_slide_run [of ?st0 t] title by simp
  have "\<forall>k<length sl. slide_spec_ok (sl ! k) \<and>
          (\<forall>b. f_images ?st1 (0 + k) = Some (Some b) \<longrightarrow> image_error E b = None)"
    using each by simp
  from content_slides_ok [OF this] obtain ss
    where run: "content_slides E 0 sl ?st1 =
                  (Inr (), ?st1\<lparr>f_prs := (f_prs ?st1)\<lparr>slides := slides (f_prs ?st1) @ ss\<rparr>\<rparr>)"
      and len: "length ss = length sl"
      and pics: "\<forall>k<length sl. pictures (ss ! k) =
                 (case f_images ?st1 (0 + k) of Some (Some b) \<Rightarrow> [add_picture b]
                  | Some None \<Rightarrow> [] | None \<Rightarrow> [])"
    by blast
  have fin: "?st1\<lparr>f_prs := (f_prs ?st1)\<lparr>slides := slides (f_prs ?st1) @ ss\<rparr>\<rparr> =
             \<lparr>f_outline = outline, f_images = images,
              f_prs = Presentation\<lparr>slides := title_slide t # ss\<rparr>\<rparr>"
    by (simp add: add_slide_def Presentation_def)
  have "build_presentation E ?st0 = content_slides E 0 sl ?st1"
    by (simp add: build_presentation_def and_then_def t0 read_outline_def lift_def slides)
  then have 1: "build_presentation E ?st0 =
      (Inr (), \<lparr>f_outline = outline, f_images = images,
                f_prs = Presentation\<lparr>slides := title_slide t # ss\<rparr>\<rparr>)"
    by (simp only: run fin)
  have 2: "\<forall>k<length sl. pictures (ss ! k) =
                 (case images k of Some (Some b) \<Rightarrow> [add_picture b]
                  | Some None \<Rightarrow> [] | None \<Rightarrow> [])"
    using pics by simp
  from 1 len 2 show ?thesis by blast
qed

lemma create_saved:
  assumes "build_presentation E \<lparr>f_outline = outline, f_images = images, f_prs = Presentation\<rparr> =
             (Inr (), \<lparr>f_outline = outline, f_images = images, f_prs = prs\<rparr>)"
    and "prs_save E (files w) fn = None"
  shows "create_presentation_file E outline images fn w =
         (Inr (), outline, images, w\<lparr>files := (files w)(fn \<mapsto> prs)\<rparr>)"
  using assms by (simp add: create_presentation_file_def)

lemma one_slide_build:
  assumes img: "images 0 = Some (Some png)" and png: "image_error E png = None"
  shows "build_presentation E
           \<lparr>f_outline = ex_outline [ex_slide (lit ''A'')], f_images = images, f_prs = Presentation\<rparr> =
         (Inr (), \<lparr>f_outline = ex_outline [ex_slide (lit ''A'')], f_images = images,
                   f_prs = \<lparr>slide_width = 9144000, slide_height = 6858000,
                     slides = [title_slide (lit ''X''),
                       [header_band 9144000, title_textbox 9144000 (lit ''A''),
                        body_textbox [new_paragraph, key_point_paragraph (lit ''p1''),
                          key_point_paragraph (lit ''p2''), key_point_paragraph (lit ''p3'')],
                        add_picture png]]\<rparr>\<rparr>)"
proof -
  let ?o = "ex_outline [ex_slide (lit ''A'')]"
  let ?st0 = "\<lparr>f_outline = ?o, f_images = images, f_prs = Presentation\<rparr>"
  let ?st1 = "\<lparr>f_outline = ?o, f_images = images,
               f_prs = add_slide (title_slide (lit ''X'')) Presentation\<rparr>"
  have g: "getitem ?o (lit ''title'') = Inr (JStr (lit ''X''))"
    "getitem ?o (lit ''slides'') = Inr (JArr [ex_slide (lit ''A'')])"
    by (simp_all add: ex_outline_def lit_def)
  have t: "getitem (ex_slide (lit ''A'')) (lit ''slide_title'') = Inr (JStr (lit ''A''))"
    by (simp add: ex_slide_def lit_def)
  have kp: "getitem (ex_slide (lit ''A'')) (lit ''key_points'') =
      Inr (JArr (map JStr [lit ''p1'', lit ''p2'', lit ''p3'']))"
    by (simp add: ex_slide_def lit_def)
  have t0: "add_title_slide ?st0 = (Inr (), ?st1)"
    using add_title_slide_run [of ?st0 "lit ''X''"] g(1) by simp
  have cs: "content_slide E 0 (ex_slide (lit ''A'')) ?st1 =
      (Inr (), ?st1\<lparr>f_prs := add_slide
         [header_band 9144000, title_textbox 9144000 (lit ''A''),
          body_textbox [new_paragraph, key_point_paragraph (lit ''p1''),
            key_point_paragraph (lit ''p2''), key_point_paragraph (lit ''p3'')],
          add_picture png] (f_prs ?st1)\<rparr>)"
    by (simp add: content_slide_spec [OF t kp] img png add_slide_def Presentation_def)
  have "build_presentation E ?st0 = content_slides E 0 [ex_slide (lit ''A'')] ?st1"
    by (simp add: build_presentation_def and_then_def t0 read_outline_def lift_def g)
  also have "\<dots> = (Inr (), ?st1\<lparr>f_prs := add_slide
         [header_band 9144000, title_textbox 9144000 (lit ''A''),
          body_textbox [new_paragraph, key_point_paragraph (lit ''p1''),
            key_point_paragraph (lit ''p2''), key_point_paragraph (lit ''p3'')],
          add_picture png] (f_prs ?st1)\<rparr>)"
    by (simp only: content_slides.simps and_then_def cs prod.case sum.case ret_def)
  finally show ?thesis
    by (simp add: add_slide_def Presentation_def)
qed

lemma ex_build:
  "build_presentation ex_env
     \<lparr>f_outline = ex_outline [ex_slide (lit ''A'')], f_images = ex_one_image, f_prs = Presentation\<rparr> =
   (Inr (), \<lparr>f_outline = ex_outline [ex_slide (lit ''A'')], f_images = ex_one_image,
             f_prs = ex_document\<rparr>)"
proof -
  have "ex_one_image 0 = Some (Some ex_png)" by (simp add: ex_one_image_def)
  moreover have "image_error ex_env ex_png = None" by (simp add: ex_env_def ex_image_error_def)
  ultimately show ?thesis
    unfolding ex_document_def by (rule one_slide_build [of ex_one_image ex_png ex_env])
qed

text \<open>
  Claim C5: for an outline of 5 well-formed slides and an image map where index 2 maps to
  \<open>None\<close> and the indices 0, 1, 3 and 4 map to image data the library reads,
  \<open>create_presentation_file\<close> saves a document of exactly 6 slides; slide 3 of the
  document (outline index 2) has no picture, and the slides 1, 2, 4 and 5 have one each.
\<close>

theorem null_image_slide_has_no_picture:
  assumes title: "getitem outline (lit ''title'') = Inr (JStr t)"
    and slides: "getitem outline (lit ''slides'') = Inr (JArr sl)"
    and five: "length sl = 5"
    and specs: "list_all slide_spec_ok sl"
    and null: "images 2 = Some None"
    and imgs: "readable_image E images 0" "readable_image E images 1"
              "readable_image E images 3" "readable_image E images 4"
    and save: "prs_save E (files w) output_filename = None"
  shows "\<exists>prs w'. create_presentation_file E outline images output_filename w =
                     (Inr (), outline, images, w') \<and>
           files w' output_filename = Some prs \<and>
           length (slides prs) = 6 \<and>
           pictures (slides prs ! 3) = [] \<and>
           length (pictures (slides prs ! 1)) = 1 \<and> length (pictures (slides prs ! 2)) = 1 \<and>
           length (pictures (slides prs ! 4)) = 1 \<and> length (pictures (slides prs ! 5)) = 1"
proof -
  have cases: "k = 0 \<or> k = 1 \<or> k = 2 \<or> k = 3 \<or> k = 4" if "k < 5" for k :: nat
    using that by arith
  have img: "images k = Some None \<or> readable_image E images k" if "k < 5" for k
    using cases [OF that] null imgs by auto
  have each: "\<forall>k<length sl. slide_spec_ok (sl ! k) \<and>
                 (\<forall>b. images k = Some (Some b) \<longrightarrow> image_error E b = None)"
  proof (intro allI impI conjI)
    fix k assume k: "k < length sl"
    then show "slide_spec_ok (sl ! k)" using specs by (simp add: list_all_length)
    fix b assume "images k = Some (Some b)"
    then show "image_error E b = None"
      using img [of k] k five by (auto simp: readable_image_iff)
  qed
  from build_presentation_slides [OF title slides each] obtain ss
    where b: "build_presentation E \<lparr>f_outline = outline, f_images = images, f_prs = Presentation\<rparr> =
                (Inr (), \<lparr>f_outline = outline, f_images = images,
                          f_prs = Presentation\<lparr>slides := title_slide t # ss\<rparr>\<rparr>)"
      and len: "length ss = length sl"
      and pics: "\<And>k. k < length sl \<Longrightarrow> pictures (ss ! k) =
                 (case images k of Some (Some b) \<Rightarrow> [add_picture b]
                  | Some None \<Rightarrow> [] | None \<Rightarrow> [])"
    by blast
  let ?prs = "Presentation\<lparr>slides := title_slide t # ss\<rparr>"
  let ?w' = "w\<lparr>files := (files w)(output_filename \<mapsto> ?prs)\<rparr>"
  have 1: "create_presentation_file E outline images output_filename w =
             (Inr (), outline, images, ?w')"
    by (rule create_saved [OF b save])
  have 2: "files ?w' output_filename = Some ?prs" by simp
  have 3: "length (slides ?prs) = 6" using len five by simp
  have nth: "slides ?prs ! 1 = ss ! 0" "slides ?prs ! 2 = ss ! 1" "slides ?prs ! 3 = ss ! 2"
    "slides ?prs ! 4 = ss ! 3" "slides ?prs ! 5 = ss ! 4"
    by simp_all
  have 4: "pictures (slides ?prs ! 3) = []"
    unfolding nth using pics [of 2] null five by simp
  have one: "length (pictures (ss ! k)) = 1" if "k < 5" "readable_image E images k" for k
    using pics [of k] that five by (auto simp: readable_image_iff)
  have 6: "length (pictures (slides ?prs ! 1)) = 1" unfolding nth using one [of 0] imgs by simp
  have 7: "length (pictures (slides ?prs ! 2)) = 1" unfolding nth using one [of 1] imgs by simp
  have 8: "length (pictures (slides ?prs ! 4)) = 1" unfolding nth using one [of 3] imgs by simp
  have 9: "length (pictures (slides ?prs ! 5)) = 1" unfolding nth using one [of 4] imgs by simp
  show ?thesis
    by (rule exI [of _ ?prs], rule exI [of _ ?w']) (intro conjI 1 2 3 4 6 7 8 9)
qed

text \<open>Five slides, the third image missing.\<close>

theorem null_image_slide_has_no_picture_witness:
  "getitem (ex_outline ex_five) (lit ''title'') = Inr (JStr (lit ''X'')) \<and>
   getitem (ex_outline ex_five) (lit ''slides'') = Inr (JArr ex_five) \<and>
   length ex_five = 5 \<and> list_all slide_spec_ok ex_five \<and> ex_five_images 2 = Some None \<and>
   readable_image ex_env ex_five_images 0 \<and> readable_image ex_env ex_five_images 1 \<and>
   readable_image ex_env ex_five_images 3 \<and> readable_image ex_env ex_five_images 4 \<and>
   prs_save ex_env (files ex_world) default_output_filename = None \<and>
   (\<exists>prs w'. create_presentation_file ex_env (ex_outline ex_five) ex_five_images
                 default_output_filename ex_world = (Inr (), ex_outline ex_five, ex_five_images, w') \<and>
              files w' default_output_filename = Some prs \<and> length (slides prs) = 6 \<and>
              pictures (slides prs ! 3) = [] \<and> length (pictures (slides prs ! 1)) = 1)"
proof -
  have h1: "getitem (ex_outline ex_five) (lit ''title'') = Inr (JStr (lit ''X''))"
    by (simp add: ex_outline_def lit_def)
  have h2: "getitem (ex_outline ex_five) (lit ''slides'') = Inr (JArr ex_five)"
    by (simp add: ex_outline_def lit_def)
  have h3: "length ex_five = 5" by (simp add: ex_five_def)
  have h4: "list_all slide_spec_ok ex_five"
    by (simp add: ex_five_def ex_slide_def slide_spec_ok_def is_str_def is_str_list_def lit_def)
  have h5: "ex_five_images 2 = Some None" by (simp add: ex_five_images_def)
  have h6: "readable_image ex_env ex_five_images 0" "readable_image ex_env ex_five_images 1"
    "readable_image ex_env ex_five_images 3" "readable_image ex_env ex_five_images 4"
    by (simp_all add: readable_image_def ex_five_images_def ex_env_def ex_image_error_def)
  have h7: "prs_save ex_env (files ex_world) default_output_filename = None"
    by (simp add: ex_env_def ex_save_def default_output_filename_def lit_def)
  from null_image_slide_has_no_picture [OF h1 h2 h3 h4 h5 h6 h7] h1 h2 h3 h4 h5 h6 h7 show ?thesis
    by blast
qed

text \<open>
  Claim C6 as it is stated expects 3 paragraphs in the bullet text box, each beginning with
  the bullet U+2022. On the input of the claim the text box has 4 paragraphs: the empty
  paragraph a new text box starts with, then one for each key point, and these begin with
  the four code points of the literal of line 139 (U+00E2, U+20AC, U+00A2, space).
\<close>

theorem round_trip_counterexample:
  "fst (create_presentation_file ex_env (ex_outline [ex_slide (lit ''A'')]) ex_one_image
          default_output_filename ex_world) = Inr () \<and>
   files (snd (snd (snd (create_presentation_file ex_env (ex_outline [ex_slide (lit ''A'')])
          ex_one_image default_output_filename ex_world)))) default_output_filename =
     Some ex_document \<and>
   map p_text (paragraphs (text_boxes (slides ex_document ! 1) ! 1)) =
     [[], [226, 8364, 162, 32, 112, 49], [226, 8364, 162, 32, 112, 50],
      [226, 8364, 162, 32, 112, 51]] \<and>
   bullet_glyph = [8226]"
proof -
  have s: "prs_save ex_env (files ex_world) default_output_filename = None"
    by (simp add: ex_env_def ex_save_def default_output_filename_def lit_def)
  have "map p_text (paragraphs (text_boxes (slides ex_document ! 1) ! 1)) =
     [[], [226, 8364, 162, 32, 112, 49], [226, 8364, 162, 32, 112, 50],
      [226, 8364, 162, 32, 112, 51]]"
    by (simp add: ex_document_def header_band_def title_textbox_def body_textbox_def
        add_picture_def new_textbox_frame_def new_paragraph_def key_point_paragraph_def
        bullet_prefix_def lit_def Let_def)
  then show ?thesis
    by (simp add: create_saved [OF ex_build s] bullet_glyph_def)
qed

text \<open>
  Claim C6, amended: for the outline with title \<open>X\<close> and the one slide \<open>A\<close> with the key
  points \<open>p1\<close>, \<open>p2\<close>, \<open>p3\<close>, and an image map that gives index 0 image data the library
  reads, \<open>create_presentation_file\<close> saves a document of exactly 2 slides; the content
  slide has two text boxes, the first reading \<open>A\<close>, the second holding 4 paragraphs, an
  empty one and then the three key points, each after one and the same prefix; and it has
  exactly one picture, of the given image.
\<close>

theorem round_trip_document:
  assumes png: "image_error E png = None" and save: "prs_save E (files w) fn = None"
  shows "\<exists>prs w' pre.
           create_presentation_file E (ex_outline [ex_slide (lit ''A'')]) [0 \<mapsto> Some png] fn w =
             (Inr (), ex_outline [ex_slide (lit ''A'')], [0 \<mapsto> Some png], w') \<and>
           files w' fn = Some prs \<and>
           length (slides prs) = 2 \<and>
           map (\<lambda>fr. map p_text (paragraphs fr)) (text_boxes (slides prs ! 1)) =
             [[lit ''A''], [[], pre @ lit ''p1'', pre @ lit ''p2'', pre @ lit ''p3'']] \<and>
           pictures (slides prs ! 1) = [add_picture png]"
proof -
  let ?s = "[header_band 9144000, title_textbox 9144000 (lit ''A''),
           body_textbox [new_paragraph, key_point_paragraph (lit ''p1''),
                         key_point_paragraph (lit ''p2''), key_point_paragraph (lit ''p3'')],
           add_picture png]"
  let ?prs = "\<lparr>slide_width = 9144000, slide_height = 6858000,
               slides = [title_slide (lit ''X''), ?s]\<rparr>"
  have img: "[0 \<mapsto> Some png] 0 = Some (Some png)" by simp
  note b = one_slide_build [of "[0 \<mapsto> Some png]" png E, OF img png]
  let ?w' = "w\<lparr>files := (files w)(fn \<mapsto> ?prs)\<rparr>"
  have 1: "create_presentation_file E (ex_outline [ex_slide (lit ''A'')]) [0 \<mapsto> Some png] fn w =
             (Inr (), ex_outline [ex_slide (lit ''A'')], [0 \<mapsto> Some png], ?w')"
    by (rule create_saved [OF b save])
  have 2: "files ?w' fn = Some ?prs" by simp
  have 3: "length (slides ?prs) = 2" by simp
  have 4: "map (\<lambda>fr. map p_text (paragraphs fr)) (text_boxes (slides ?prs ! 1)) =
             [[lit ''A''], [[], bullet_prefix @ lit ''p1'', bullet_prefix @ lit ''p2'',
                            bullet_prefix @ lit ''p3'']]"
    by (simp add: header_band_def title_textbox_def body_textbox_def
        add_picture_def new_textbox_frame_def new_paragraph_def key_point_paragraph_def Let_def)
  have 5: "pictures (slides ?prs ! 1) = [add_picture png]"
    by simp
  show ?thesis
    by (rule exI [of _ ?prs], rule exI [of _ ?w'], rule exI [of _ bullet_prefix])
       (intro conjI 1 2 3 4 5)
qed

text \<open>The same input with the concrete image and an empty disk.\<close>

theorem round_trip_document_witness:
  "image_error ex_env ex_png = None \<and>
   prs_save ex_env (files ex_world) default_output_filename = None \<and>
   (\<exists>prs w'. create_presentation_file ex_env (ex_outline [ex_slide (lit ''A'')])
                 [0 \<mapsto> Some ex_png] default_output_filename ex_world =
               (Inr (), ex_outline [ex_slide (lit ''A'')], [0 \<mapsto> Some ex_png], w') \<and>
             files w' default_output_filename = Some prs \<and> length (slides prs) = 2 \<and>
             pictures (slides prs ! 1) = [add_picture ex_png])"
proof -
  have h1: "image_error ex_env ex_png = None"
    by (simp add: ex_env_def ex_image_error_def)
  have h2: "prs_save ex_env (files ex_world) default_output_filename = None"
    by (simp add: ex_env_def ex_save_def default_output_filename_def lit_def)
  from round_trip_document [OF h1 h2] h1 h2 show ?thesis by blast
qed

section \<open>The arguments of the assembly\<close>

lemma keeps_ret: "keeps_inputs (ret x)"
  by (simp add: keeps_inputs_def ret_def)

lemma keeps_lift: "keeps_inputs (lift r)"
  by (simp add: keeps_inputs_def lift_def)

lemma keeps_read: "keeps_inputs read_outline" "keeps_inputs read_images" "keeps_inputs read_prs"
  by (simp_all add: keeps_inputs_def read_outline_def read_images_def read_prs_def)

lemma keeps_update_prs: "keeps_inputs (update_prs g)"
  by (simp add: keeps_inputs_def update_prs_def)

lemma keeps_and_then:
  assumes m: "keeps_inputs m" and f: "\<And>x. keeps_inputs (f x)"
  shows "keeps_inputs (and_then m f)"
  unfolding keeps_inputs_def
proof
  fix st
  show "f_outline (snd (and_then m f st)) = f_outline st \<and>
        f_images (snd (and_then m f st)) = f_images st"
  proof (cases "m st")
    case (Pair r st')
    then have st': "f_outline st' = f_outline st" "f_images st' = f_images st"
      using m by (auto simp: keeps_inputs_def dest: spec [of _ st])
    show ?thesis
    proof (cases r)
      case (Inl e)
      then show ?thesis using Pair st' by (simp add: and_then_def)
    next
      case (Inr x)
      then have "and_then m f st = f x st'" using Pair by (simp add: and_then_def)
      moreover have "f_outline (snd (f x st')) = f_outline st'"
        "f_images (snd (f x st')) = f_images st'"
        using f [of x] by (simp_all add: keeps_inputs_def)
      ultimately show ?thesis using st' by simp
    qed
  qed
qed

lemmas keeps_steps = keeps_ret keeps_lift keeps_read keeps_update_prs

lemma keeps_add_title_slide: "keeps_inputs add_title_slide"
  unfolding add_title_slide_def by (intro keeps_and_then keeps_steps)

lemma keeps_content_slide: "keeps_inputs (content_slide E i slide_data)"
proof -
  have last: "keeps_inputs
      (case images i of
         Some (Some img) \<Rightarrow>
           and_then (lift (case image_error E img of Some e \<Rightarrow> Inl e | None \<Rightarrow> Inr ())) (\<lambda>u.
           update_prs (add_shape (add_picture img)))
       | Some None \<Rightarrow> ret ()
       | None \<Rightarrow> ret ())" for images
    by (auto split: option.splits intro!: keeps_and_then keeps_steps)
  show ?thesis
    unfolding content_slide_def by (intro keeps_and_then keeps_steps last)
qed

lemma keeps_content_slides: "keeps_inputs (content_slides E i sl)"
proof (induction sl arbitrary: i)
  case Nil
  show ?case by (simp add: keeps_ret)
next
  case (Cons slide_data rest)
  show ?case
    by (simp only: content_slides.simps) (intro keeps_and_then keeps_content_slide Cons.IH)
qed

lemma keeps_build_presentation: "keeps_inputs (build_presentation E)"
  unfolding build_presentation_def
  by (intro keeps_and_then keeps_steps keeps_add_title_slide keeps_content_slides)

text \<open>
  Claim C10: after \<open>create_presentation_file\<close>, whether it returned or raised, the outline
  and the image map are the ones it was given: every step of the function leaves the two
  argument objects as they are, and so does every sequence of such steps.
\<close>

theorem assembly_keeps_inputs:
  "fst (snd (create_presentation_file E outline images fn w)) = outline \<and>
   fst (snd (snd (create_presentation_file E outline images fn w))) = images"
proof -
  let ?st0 = "\<lparr>f_outline = outline, f_images = images, f_prs = Presentation\<rparr>"
  obtain r st where run: "build_presentation E ?st0 = (r, st)"
    by (cases "build_presentation E ?st0")
  have "f_outline (snd (build_presentation E ?st0)) = f_outline ?st0"
    "f_images (snd (build_presentation E ?st0)) = f_images ?st0"
    using keeps_build_presentation [of E] by (simp_all add: keeps_inputs_def)
  then have st: "f_outline st = outline" "f_images st = images"
    using run by simp_all
  show ?thesis
    by (cases r) (simp_all add: create_presentation_file_def run st split: option.splits)
qed

text \<open>A run that fails, the library rejecting the image: both inputs are still the same.\<close>

theorem assembly_keeps_inputs_witness:
  "fst (create_presentation_file ex_env (ex_outline [ex_slide (lit ''A'')]) [0 \<mapsto> Some [0x00]]
          default_output_filename ex_world) = Inl UnidentifiedImageError \<and>
   fst (snd (create_presentation_file ex_env (ex_outline [ex_slide (lit ''A'')])
          [0 \<mapsto> Some [0x00]] default_output_filename ex_world)) =
     ex_outline [ex_slide (lit ''A'')] \<and>
   fst (snd (snd (create_presentation_file ex_env (ex_outline [ex_slide (lit ''A'')])
          [0 \<mapsto> Some [0x00]] default_output_filename ex_world))) = [0 \<mapsto> Some [0x00]]"
proof -
  let ?o = "ex_outline [ex_slide (lit ''A'')]"
  let ?im = "[0 \<mapsto> Some [0x00]] :: image_map"
  let ?st0 = "\<lparr>f_outline = ?o, f_images = ?im, f_prs = Presentation\<rparr>"
  let ?st1 = "\<lparr>f_outline = ?o, f_images = ?im,
               f_prs = add_slide (title_slide (lit ''X'')) Presentation\<rparr>"
  have g: "getitem ?o (lit ''title'') = Inr (JStr (lit ''X''))"
    "getitem ?o (lit ''slides'') = Inr (JArr [ex_slide (lit ''A'')])"
    by (simp_all add: ex_outline_def lit_def)
  have t: "getitem (ex_slide (lit ''A'')) (lit ''slide_title'') = Inr (JStr (lit ''A''))"
    by (simp add: ex_slide_def lit_def)
  have kp: "getitem (ex_slide (lit ''A'')) (lit ''key_points'') =
      Inr (JArr (map JStr [lit ''p1'', lit ''p2'', lit ''p3'']))"
    by (simp add: ex_slide_def lit_def)
  have t0: "add_title_slide ?st0 = (Inr (), ?st1)"
    using add_title_slide_run [of ?st0 "lit ''X''"] g(1) by simp
  have bad: "image_error ex_env [0x00] = Some UnidentifiedImageError"
    by (simp add: ex_env_def ex_image_error_def ex_png_def)
  have cs: "fst (content_slide ex_env 0 (ex_slide (lit ''A'')) ?st1) = Inl UnidentifiedImageError"
    by (simp add: content_slide_spec [OF t kp] bad)
  have "build_presentation ex_env ?st0 = content_slides ex_env 0 [ex_slide (lit ''A'')] ?st1"
    by (simp add: build_presentation_def and_then_def t0 read_outline_def lift_def g)
  moreover have "fst (content_slides ex_env 0 [ex_slide (lit ''A'')] ?st1) =
      Inl UnidentifiedImageError"
    using cs by (cases "content_slide ex_env 0 (ex_slide (lit ''A'')) ?st1")
      (simp add: and_then_def)
  ultimately have "fst (build_presentation ex_env ?st0) = Inl UnidentifiedImageError"
    by simp
  then have "fst (create_presentation_file ex_env ?o ?im default_output_filename ex_world) =
      Inl UnidentifiedImageError"
    by (cases "build_presentation ex_env ?st0") (simp add: create_presentation_file_def)
  with assembly_keeps_inputs [of ex_env ?o ?im default_output_filename ex_world]
  show ?thesis by simp
qed

end
